theory Spec2Isabelle
  imports Main "HOL-Library.Sublist"
begin

section \<open>Python values and strings\<close>

text \<open>
  Strings are HOL strings, a character being a code point below 256: \<open>isspace\<close> and
  \<open>lower\<close> below are Python's \<^verbatim>\<open>str.isspace\<close> and \<^verbatim>\<open>str.lower\<close> on these code points
  (whitespace is 0x09 to 0x0D, 0x1C to 0x20, 0x85 and 0xA0; the capital letters are
  A to Z and 0xC0 to 0xDE without the multiplication sign 0xD7).

  A setting is a JSON value. Floats and nested objects are left out; every other shape a
  settings file can hold is a \<open>jvalue\<close>, so a malformed setting is an input of the model.
\<close>

datatype py_error = TypeError | ValueError | AttributeError | OtherError

datatype jvalue = JNone | JBool bool | JInt int | JStr string | JList "jvalue list"

fun truthy :: "jvalue \<Rightarrow> bool" where
  "truthy JNone = False"
| "truthy (JBool b) = b"
| "truthy (JInt n) = (n \<noteq> 0)"
| "truthy (JStr s) = (s \<noteq> [])"
| "truthy (JList xs) = (xs \<noteq> [])"

text \<open>\<^verbatim>\<open>x or []\<close>\<close>

definition or_empty_list :: "jvalue \<Rightarrow> jvalue" where
  "or_empty_list x = (if truthy x then x else JList [])"

text \<open>\<^verbatim>\<open>for c in x\<close>: a list yields its elements, a string its characters, anything else
  raises TypeError.\<close>

fun py_iter :: "jvalue \<Rightarrow> py_error + jvalue list" where
  "py_iter (JList xs) = Inr xs"
| "py_iter (JStr s) = Inr (map (\<lambda>c. JStr [c]) s)"
| "py_iter _ = Inl TypeError"

definition isspace :: "char \<Rightarrow> bool" where
  "isspace c \<longleftrightarrow> c \<in> set [CHR 0x09, CHR 0x0A, CHR 0x0B, CHR 0x0C, CHR 0x0D,
                          CHR 0x1C, CHR 0x1D, CHR 0x1E, CHR 0x1F, CHR 0x20,
                          CHR 0x85, CHR 0xA0]"

definition lstrip :: "string \<Rightarrow> string" where
  "lstrip s = dropWhile isspace s"

definition rstrip :: "string \<Rightarrow> string" where
  "rstrip s = rev (dropWhile isspace (rev s))"

definition strip :: "string \<Rightarrow> string" where
  "strip s = rstrip (lstrip s)"

text \<open>\<^verbatim>\<open>s.rstrip(chars)\<close>\<close>

definition rstrip_chars :: "string \<Rightarrow> string \<Rightarrow> string" where
  "rstrip_chars chars s = rev (dropWhile (\<lambda>c. c \<in> set chars) (rev s))"

definition lower_char :: "char \<Rightarrow> char" where
  "lower_char c = (let n = (of_char c :: nat)
                   in if (65 \<le> n \<and> n \<le> 90) \<or> (192 \<le> n \<and> n \<le> 222 \<and> n \<noteq> 215)
                      then char_of (n + 32) else c)"

definition lower :: "string \<Rightarrow> string" where
  "lower s = map lower_char s"

definition endswith :: "string \<Rightarrow> string \<Rightarrow> bool" where
  "endswith s suf = prefix (rev suf) (rev s)"

definition startswith :: "string \<Rightarrow> string \<Rightarrow> bool" where
  "startswith s pre = prefix pre s"

text \<open>\<^verbatim>\<open>'{0}'.format(n)\<close> for an integer.\<close>

fun str_of_nat :: "nat \<Rightarrow> string" where
  "str_of_nat n = (if n < 10 then [char_of (48 + n)]
                   else str_of_nat (n div 10) @ [char_of (48 + n mod 10)])"

declare str_of_nat.simps [simp del]

definition str_of_int :: "int \<Rightarrow> string" where
  "str_of_int i = (if i < 0 then CHR ''-'' # str_of_nat (nat (- i)) else str_of_nat (nat i))"

section \<open>skip_line\<close>

text \<open>
  \<^verbatim>\<open>def skip_line(line): return line.strip().lower().endswith('# noqa')\<close>
\<close>

definition skip_line :: "string \<Rightarrow> bool" where
  "skip_line line = endswith (lower (strip line)) ''# noqa''"

section \<open>The editor's view, the settings and the effects\<close>

type_synonym region = "int \<times> int"

text \<open>A lint error as the lint module returns it: (line number, column, text).\<close>

type_synonym lint_error = "int \<times> int \<times> string"

text \<open>An entry of the quick panel: \<^verbatim>\<open>[error_text, '<line number>: <line text>']\<close>.\<close>

type_synonym entry = "string \<times> string"

type_synonym settings_dict = "string \<rightharpoonup> jvalue"

record window =
  active_view :: "nat option"

text \<open>
  The view is the host editor's object; what its methods return is taken as given.
  \<open>flake8lint\<close> is \<^verbatim>\<open>view.settings().get('flake8lint') or {}\<close>.
\<close>

record view =
  view_id :: nat
  file_name :: "string option"
  match_selector :: "int \<Rightarrow> string \<Rightarrow> bool"
  is_dirty :: bool
  is_scratch :: bool
  is_loading :: bool
  view_window :: "window option"
  flake8lint :: settings_dict
  sel :: "region list"
  rowcol :: "int \<Rightarrow> int \<times> int"
  text_point :: "int \<Rightarrow> int \<Rightarrow> int"
  full_line :: "int \<Rightarrow> region"
  substr :: "region \<Rightarrow> string"

datatype draw_flag = DRAW_OUTLINED | HIDDEN

text \<open>Calls into the host editor and into the lint module, in the order they are made.\<close>

datatype action =
    Erase_regions nat string
  | Erase_status nat string
  | Set_status nat string string
  | Add_regions nat string "region list" string jvalue draw_flag
  | Show_quick_panel nat "entry list"
  | Run_command nat string
  | Error_message string
  | Message_dialog string
  | Print string
  | Set_timeout nat nat
  | Call_lint string settings_dict
  | Call_lint_external string settings_dict jvalue string

text \<open>
  The module's globals and the attributes of the command and listener objects:
  \<open>ERRORS_IN_VIEWS\<close>, \<^verbatim>\<open>self.errors_list\<close> of the command of each view, and
  \<^verbatim>\<open>self._last_selected_line\<close> of the listener.
\<close>

record plugin_state =
  ERRORS_IN_VIEWS :: "nat \<rightharpoonup> (int \<rightharpoonup> string list)"
  errors_list :: "nat \<rightharpoonup> lint_error list"
  last_selected_line :: "int option"

text \<open>What a call leaves behind: the state, the calls made, and the exception if one
  escaped.\<close>

type_synonym outcome = "plugin_state \<times> action list \<times> py_error option"

text \<open>\<^verbatim>\<open>settings.get(key, default)\<close>\<close>

definition get_default :: "settings_dict \<Rightarrow> string \<Rightarrow> jvalue \<Rightarrow> jvalue" where
  "get_default d k dflt = (case d k of None \<Rightarrow> dflt | Some v \<Rightarrow> v)"

section \<open>Flake8LintCommand.show_errors\<close>

text \<open>\<^verbatim>\<open>code, _ = error_text.split(' ', 1)\<close>: ValueError when the text has no space.\<close>

definition split_code :: "string \<Rightarrow> py_error + string" where
  "split_code error_text =
     (if CHR '' '' \<in> set error_text then Inr (takeWhile (\<lambda>c. c \<noteq> CHR '' '') error_text)
      else Inl ValueError)"

text \<open>\<^verbatim>\<open>[c for c in cs if code.startswith(c)]\<close>: \<^verbatim>\<open>startswith\<close> raises TypeError on an
  argument that is not a string.\<close>

fun startswith_comp :: "string \<Rightarrow> jvalue list \<Rightarrow> py_error + jvalue list" where
  "startswith_comp code [] = Inr []"
| "startswith_comp code (JStr p # cs) =
     (case startswith_comp code cs of
        Inl err \<Rightarrow> Inl err
      | Inr r \<Rightarrow> Inr (if startswith code p then JStr p # r else r))"
| "startswith_comp code (_ # cs) = Inl TypeError"

text \<open>\<^verbatim>\<open>codes and [c for c in codes if code.startswith(c)]\<close>, as a condition.\<close>

definition code_matches :: "jvalue \<Rightarrow> string \<Rightarrow> py_error + bool" where
  "code_matches codes code =
     (if \<not> truthy codes then Inr False
      else case py_iter codes of
             Inl err \<Rightarrow> Inl err
           | Inr cs \<Rightarrow> (case startswith_comp code cs of
                          Inl err \<Rightarrow> Inl err
                        | Inr r \<Rightarrow> Inr (r \<noteq> [])))"

record loop_state =
  errors_to_show :: "entry list"
  errors_list_filtered :: "lint_error list"
  regions :: "region list"
  view_errors :: "int \<rightharpoonup> string list"

definition loop_init :: loop_state where
  "loop_init = \<lparr>errors_to_show = [], errors_list_filtered = [], regions = [],
                view_errors = Map.empty\<rparr>"

text \<open>The region of a displayed error (the block under \<^verbatim>\<open>if is_highlight or mark\<close>).\<close>

definition error_region :: "int \<Rightarrow> string \<Rightarrow> string \<Rightarrow> int \<Rightarrow> region" where
  "error_region tp full_line_text code col =
     (let line_text = rstrip_chars [CHR 0x0D, CHR 0x0A] full_line_text;
          line_length = int (length line_text);
          start = tp + line_length - int (length (lstrip line_text));
          end' = tp + line_length;
          start = (if code = ''E501'' then tp + col else start)
      in (start, end'))"

text \<open>\<^verbatim>\<open>view_errors.setdefault(current_line, []).append(error_text)\<close>\<close>

definition setdefault_append :: "(int \<rightharpoonup> string list) \<Rightarrow> int \<Rightarrow> string \<Rightarrow> (int \<rightharpoonup> string list)" where
  "setdefault_append d k x = d(k \<mapsto> (case d k of None \<Rightarrow> [] | Some xs \<Rightarrow> xs) @ [x])"

text \<open>The body of \<^verbatim>\<open>for e in self.errors_list\<close>; \<open>Inr st\<close> with the state unchanged is
  \<^verbatim>\<open>continue\<close>.\<close>

definition show_errors_step ::
  "view \<Rightarrow> jvalue \<Rightarrow> jvalue \<Rightarrow> jvalue \<Rightarrow> jvalue \<Rightarrow> jvalue \<Rightarrow> loop_state \<Rightarrow> lint_error
     \<Rightarrow> py_error + loop_state" where
  "show_errors_step v select ignore is_highlight is_popup mark st e =
     (let current_line = fst e - 1;
          error_text = snd (snd e);
          tp = text_point v current_line 0;
          line = full_line v tp;
          full_line_text = substr v line;
          line_text = strip full_line_text
      in if skip_line line_text then Inr st
         else case split_code error_text of
           Inl err \<Rightarrow> Inl err
         | Inr code \<Rightarrow>
            (case code_matches select code of
               Inl err \<Rightarrow> Inl err
             | Inr True \<Rightarrow> Inr st
             | Inr False \<Rightarrow>
                (case code_matches ignore code of
                   Inl err \<Rightarrow> Inl err
                 | Inr True \<Rightarrow> Inr st
                 | Inr False \<Rightarrow>
                    (let error = (error_text, str_of_int (current_line + 1) @ '': '' @ line_text)
                     in if error \<in> set (errors_to_show st) then Inr st
                        else Inr \<lparr>errors_to_show = errors_to_show st @ [error],
                                  errors_list_filtered =
                                    (if truthy is_popup then errors_list_filtered st @ [e]
                                     else errors_list_filtered st),
                                  regions =
                                    (if truthy is_highlight \<or> truthy mark
                                     then regions st @ [error_region tp full_line_text code (fst (snd e))]
                                     else regions st),
                                  view_errors =
                                    setdefault_append (view_errors st) current_line error_text\<rparr>))))"

fun show_errors_loop ::
  "view \<Rightarrow> jvalue \<Rightarrow> jvalue \<Rightarrow> jvalue \<Rightarrow> jvalue \<Rightarrow> jvalue \<Rightarrow> loop_state \<Rightarrow> lint_error list
     \<Rightarrow> py_error + loop_state" where
  "show_errors_loop v select ignore is_highlight is_popup mark st [] = Inr st"
| "show_errors_loop v select ignore is_highlight is_popup mark st (e # es) =
     (case show_errors_step v select ignore is_highlight is_popup mark st e of
        Inl err \<Rightarrow> Inl err
      | Inr st' \<Rightarrow> show_errors_loop v select ignore is_highlight is_popup mark st' es)"

text \<open>\<^verbatim>\<open>if mark not in ('', 'dot', 'circle', 'bookmark', 'cross'): mark = ''\<close>\<close>

definition gutter_mark :: "jvalue \<Rightarrow> jvalue" where
  "gutter_mark mark =
     (if mark \<notin> set [JStr '''', JStr ''dot'', JStr ''circle'', JStr ''bookmark'', JStr ''cross'']
      then JStr '''' else mark)"

text \<open>
  \<open>settings\<close> is the module's global settings object, \<open>view_settings\<close> the dictionary
  built by \<open>get_view_settings\<close>, \<open>errs\<close> is \<^verbatim>\<open>self.errors_list\<close>. The first half of
  \<open>show_errors\<close> reads the settings and runs the loop.
\<close>

definition show_errors_collect ::
  "settings_dict \<Rightarrow> view \<Rightarrow> settings_dict \<Rightarrow> lint_error list \<Rightarrow> py_error + loop_state" where
  "show_errors_collect settings v view_settings errs =
     (let select = or_empty_list (get_default view_settings ''select'' JNone);
          ignore = or_empty_list (get_default view_settings ''ignore'' JNone);
          is_highlight = get_default settings ''highlight'' (JBool False);
          is_popup = get_default settings ''popup'' (JBool True);
          mark = gutter_mark (get_default settings ''gutter_marks'' (JStr ''''))
      in show_errors_loop v select ignore is_highlight is_popup mark loop_init errs)"

text \<open>
  The second half stores the results and calls the editor. Nothing is called and
  nothing is stored before the loop has finished, so an exception of the loop leaves
  the state as it was.
\<close>

definition show_errors :: "settings_dict \<Rightarrow> view \<Rightarrow> settings_dict \<Rightarrow> plugin_state \<Rightarrow> outcome" where
  "show_errors settings v view_settings ps =
     (let is_highlight = get_default settings ''highlight'' (JBool False);
          is_popup = get_default settings ''popup'' (JBool True);
          mark = gutter_mark (get_default settings ''gutter_marks'' (JStr ''''));
          errs = (case errors_list ps (view_id v) of None \<Rightarrow> [] | Some es \<Rightarrow> es)
      in case show_errors_collect settings v view_settings errs of
           Inl err \<Rightarrow> (ps, [], Some err)
         | Inr st \<Rightarrow>
            (let ps' = ps\<lparr>errors_list := (errors_list ps)(view_id v \<mapsto> errors_list_filtered st),
                          ERRORS_IN_VIEWS := (ERRORS_IN_VIEWS ps)(view_id v \<mapsto> view_errors st)\<rparr>;
                 acts = (if truthy is_highlight
                         then [Add_regions (view_id v) ''flake8-errors'' (regions st)
                                 ''invalid.deprecated'' mark DRAW_OUTLINED]
                         else if truthy mark
                         then [Add_regions (view_id v) ''flake8-errors'' (regions st)
                                 ''invalid.deprecated'' mark HIDDEN]
                         else [])
             in if truthy is_popup
                then (case view_window v of
                        None \<Rightarrow> (ps', acts, Some AttributeError)
                      | Some w \<Rightarrow> (ps', acts @ [Show_quick_panel (view_id v) (errors_to_show st)], None))
                else (ps', acts, None)))"

section \<open>The environment\<close>

text \<open>
  What the plugin reads from outside itself: the global settings object, the operating
  system, the window, the standard library's path functions and \<^verbatim>\<open>fnmatch\<close>, and the
  functions of the lint module (\<open>skip_file\<close>, \<open>load_flake8_config\<close>, \<open>lint\<close>,
  \<open>lint_external\<close>), which this file only calls. \<open>set_iter\<close> is the order in which
  \<^verbatim>\<open>set(paths)\<close> is iterated, \<open>str_format\<close> is \<^verbatim>\<open>'%s' % x\<close>.
\<close>

record world =
  settings :: settings_dict
  os_name :: string
  os_sep :: char
  abspath :: "string \<Rightarrow> string"
  basename :: "string \<Rightarrow> string"
  path_join :: "string list \<Rightarrow> string"
  path_exists :: "jvalue \<Rightarrow> py_error + bool"
  FLAKE_DIR :: string
  packages_path :: string
  active_window_folders :: "string list"
  fnmatch :: "string \<Rightarrow> jvalue \<Rightarrow> py_error + bool"
  set_iter :: "string list \<Rightarrow> string list"
  str_format :: "jvalue \<Rightarrow> string"
  skip_file :: "string \<Rightarrow> bool"
  load_flake8_config :: "string \<Rightarrow> jvalue \<Rightarrow> jvalue \<Rightarrow> settings_dict"
  lint :: "string \<Rightarrow> settings_dict \<Rightarrow> lint_error list"
  lint_external :: "string \<Rightarrow> settings_dict \<Rightarrow> jvalue \<Rightarrow> string \<Rightarrow> lint_error list"

section \<open>get_view_settings\<close>

definition PROJECT_SETTINGS_KEYS :: "string list" where
  "PROJECT_SETTINGS_KEYS =
     [''python_interpreter'', ''builtins'', ''pyflakes'', ''pep8'', ''complexity'',
      ''pep8_max_line_length'', ''select'', ''ignore'', ''ignore_files'',
      ''use_flake8_global_config'', ''use_flake8_project_config'']"

definition FLAKE8_SETTINGS_KEYS :: "string list" where
  "FLAKE8_SETTINGS_KEYS = [''ignore'', ''select'', ''ignore_files'', ''pep8_max_line_length'']"

text \<open>
  \<^verbatim>\<open>os.path.abspath(view.file_name())\<close> of a view without a file is an AttributeError
  (posixpath); \<open>run\<close> calls this function only for a view with a file.
\<close>

definition get_view_settings :: "world \<Rightarrow> view \<Rightarrow> py_error + settings_dict" where
  "get_view_settings w v =
     (let view_settings = flake8lint v;
          result_settings =
            fold (\<lambda>param r. case view_settings param of
                               Some x \<Rightarrow> r(param \<mapsto> x)
                             | None \<Rightarrow> (case settings w param of
                                          Some x \<Rightarrow> r(param \<mapsto> x)
                                        | None \<Rightarrow> r))
                 PROJECT_SETTINGS_KEYS Map.empty;
          global_config = get_default result_settings ''use_flake8_global_config'' (JBool False);
          project_config = get_default result_settings ''use_flake8_project_config'' (JBool False)
      in if truthy global_config \<or> truthy project_config
         then (case file_name v of
                 None \<Rightarrow> Inl AttributeError
               | Some fn \<Rightarrow>
                  (let filename = abspath w fn;
                       flake8_config = load_flake8_config w filename global_config project_config
                   in Inr (fold (\<lambda>param r. case flake8_config param of
                                              Some x \<Rightarrow> r(param \<mapsto> x)
                                            | None \<Rightarrow> r)
                                FLAKE8_SETTINGS_KEYS result_settings)))
         else Inr result_settings)"

section \<open>filename_match\<close>

text \<open>\<^verbatim>\<open>s.split(sep)\<close> for a separator of one character.\<close>

fun py_split :: "char \<Rightarrow> string \<Rightarrow> string list" where
  "py_split sep [] = [[]]"
| "py_split sep (c # cs) =
     (if c = sep then [] # py_split sep cs
      else (case py_split sep cs of
              [] \<Rightarrow> [[c]]
            | p # ps \<Rightarrow> (c # p) # ps))"

text \<open>\<^verbatim>\<open>any(fnmatch(path_part, pattern) for pattern in patterns)\<close>\<close>

fun any_fnmatch :: "world \<Rightarrow> string \<Rightarrow> jvalue list \<Rightarrow> py_error + bool" where
  "any_fnmatch w path_part [] = Inr False"
| "any_fnmatch w path_part (pattern # patterns) =
     (case fnmatch w path_part pattern of
        Inl err \<Rightarrow> Inl err
      | Inr True \<Rightarrow> Inr True
      | Inr False \<Rightarrow> any_fnmatch w path_part patterns)"

fun filename_match_parts :: "world \<Rightarrow> string list \<Rightarrow> jvalue \<Rightarrow> py_error + bool" where
  "filename_match_parts w [] patterns = Inr False"
| "filename_match_parts w (path_part # parts) patterns =
     (case py_iter patterns of
        Inl err \<Rightarrow> Inl err
      | Inr ps \<Rightarrow>
         (case any_fnmatch w path_part ps of
            Inl err \<Rightarrow> Inl err
          | Inr True \<Rightarrow> Inr True
          | Inr False \<Rightarrow> filename_match_parts w parts patterns))"

definition filename_match :: "world \<Rightarrow> string \<Rightarrow> jvalue \<Rightarrow> py_error + bool" where
  "filename_match w filename patterns =
     filename_match_parts w (py_split (os_sep w) filename) patterns"

text \<open>\<^verbatim>\<open>any(filename_match(path, patterns) for path in ...)\<close>\<close>

fun any_filename_match :: "world \<Rightarrow> string list \<Rightarrow> jvalue \<Rightarrow> py_error + bool" where
  "any_filename_match w [] patterns = Inr False"
| "any_filename_match w (path # paths) patterns =
     (case filename_match w path patterns of
        Inl err \<Rightarrow> Inl err
      | Inr True \<Rightarrow> Inr True
      | Inr False \<Rightarrow> any_filename_match w paths patterns)"

section \<open>Flake8LintCommand.run\<close>

definition dialog_prefix :: string where
  "dialog_prefix = ''Python Flake8 Lint error:'' @ [CHR 0x0A]"

text \<open>The list \<open>paths\<close>: the base name of the file, then the path of the file relative to
  each folder of the window that holds it.\<close>

definition ignore_files_paths :: "world \<Rightarrow> string \<Rightarrow> string list" where
  "ignore_files_paths w filename =
     basename w filename #
     concat (map (\<lambda>folder.
               let folder_name = rstrip_chars [os_sep w] folder @ [os_sep w]
               in if startswith filename folder_name
                  then [drop (length folder_name) filename] else [])
             (active_window_folders w))"

text \<open>
  The block \<^verbatim>\<open># skip files by pattern\<close>. The result \<open>Inr True\<close> is the \<^verbatim>\<open>return\<close> of
  \<open>run\<close> (the file is ignored), \<open>Inr False\<close> goes on, \<open>Inl\<close> is an exception that the
  \<^verbatim>\<open>except (TypeError, ValueError)\<close> clause does not catch.
\<close>

definition run_ignore_files :: "world \<Rightarrow> string \<Rightarrow> settings_dict \<Rightarrow> action list \<times> (py_error + bool)" where
  "run_ignore_files w filename view_settings =
     (let patterns = get_default view_settings ''ignore_files'' JNone
      in if truthy patterns
         then (let paths = ignore_files_paths w filename
               in case any_filename_match w (set_iter w paths) patterns of
                    Inr True \<Rightarrow>
                      ([Print (''File '' @ [CHR 0x27] @ filename @ [CHR 0x27] @
                               '' lint was ignored by settings'')], Inr True)
                  | Inr False \<Rightarrow> ([], Inr False)
                  | Inl err \<Rightarrow>
                      (if err = TypeError \<or> err = ValueError
                       then ([Error_message (dialog_prefix @ [CHR 0x27] @ ''ignore_files'' @
                                 [CHR 0x27] @ '' option is not a list of file masks'')], Inr False)
                       else ([], Inl err)))
         else ([], Inr False))"

text \<open>The block from \<^verbatim>\<open># try to get interpreter\<close> to the call of \<open>lint_external\<close>: the
  calls made and the value of \<^verbatim>\<open>self.errors_list\<close>, or the exception.\<close>

definition run_lint :: "world \<Rightarrow> string \<Rightarrow> settings_dict \<Rightarrow> action list \<times> (py_error + lint_error list)" where
  "run_lint w filename view_settings =
     (let interpreter = get_default view_settings ''python_interpreter'' (JStr ''auto'')
      in if \<not> truthy interpreter \<or> interpreter = JStr ''internal''
         then ([Call_lint filename view_settings], Inr (lint w filename view_settings))
         else
           (case (if interpreter = JStr ''auto''
                  then Inr (if os_name w = ''nt'' then JStr ''pythonw'' else JStr ''python'', [])
                  else (case path_exists w interpreter of
                          Inl err \<Rightarrow> Inl err
                        | Inr ex \<Rightarrow>
                            Inr (interpreter,
                                 if \<not> ex
                                 then [Error_message (dialog_prefix @ ''python interpreter '' @
                                         [CHR 0x27] @ str_format w interpreter @ [CHR 0x27] @
                                         '' is not found'')]
                                 else []))) of
              Inl err \<Rightarrow> ([], Inl err)
            | Inr (interpreter, acts1) \<Rightarrow>
               (let linter = path_join w [FLAKE_DIR w, ''lint.py'']
                in case path_exists w (JStr linter) of
                     Inl err \<Rightarrow> (acts1, Inl err)
                   | Inr ex1 \<Rightarrow>
                      (let linter = (if \<not> ex1
                                     then path_join w [packages_path w, ''Python Flake8 Lint'', ''lint.py'']
                                     else linter)
                       in case path_exists w (JStr linter) of
                            Inl err \<Rightarrow> (acts1, Inl err)
                          | Inr ex2 \<Rightarrow>
                             (let acts2 = (if \<not> ex2
                                           then [Error_message (dialog_prefix @
                                                   ''sorry, can'' @ [CHR 0x27] @
                                                   ''t find correct plugin path'')]
                                           else [])
                              in (acts1 @ acts2 @
                                    [Call_lint_external filename view_settings interpreter linter],
                                  Inr (lint_external w filename view_settings interpreter linter)))))))"

definition run :: "world \<Rightarrow> view \<Rightarrow> plugin_state \<Rightarrow> outcome" where
  "run w v ps =
     (case file_name v of
        None \<Rightarrow> (ps, [], None)
      | Some fn \<Rightarrow>
         if fn = [] then (ps, [], None)
         else
           (let filename = abspath w fn
            in if \<not> match_selector v 0 ''source.python'' then (ps, [], None)
               else if skip_file w filename then (ps, [], None)
               else
                 (let acts0 = [Erase_regions (view_id v) ''flake8-errors'',
                               Erase_status (view_id v) ''flake8-tip'']
                  in case get_view_settings w v of
                       Inl err \<Rightarrow> (ps, acts0, Some err)
                     | Inr view_settings \<Rightarrow>
                        (case run_ignore_files w filename view_settings of
                           (acts1, Inl err) \<Rightarrow> (ps, acts0 @ acts1, Some err)
                         | (acts1, Inr True) \<Rightarrow> (ps, acts0 @ acts1, None)
                         | (acts1, Inr False) \<Rightarrow>
                            (let acts2 = (if is_dirty v then [Run_command (view_id v) ''save'']
                                          else [])
                             in case run_lint w filename view_settings of
                                  (acts3, Inl err) \<Rightarrow> (ps, acts0 @ acts1 @ acts2 @ acts3, Some err)
                                | (acts3, Inr errs) \<Rightarrow>
                                   (let ps1 = ps\<lparr>errors_list := (errors_list ps)(view_id v \<mapsto> errs)\<rparr>;
                                        acts = acts0 @ acts1 @ acts2 @ acts3
                                    in if errs \<noteq> []
                                       then (case show_errors (settings w) v view_settings ps1 of
                                               (ps2, acts4, r) \<Rightarrow> (ps2, acts @ acts4, r))
                                       else if truthy (get_default (settings w) ''report_on_success''
                                                         (JBool False))
                                       then (ps1, acts @ [Message_dialog ''Flake8 Lint: SUCCESS''], None)
                                       else (ps1, acts, None)))))))"

section \<open>The status bar\<close>

definition get_current_line :: "view \<Rightarrow> int option" where
  "get_current_line v =
     (case sel v of
        [] \<Rightarrow> None
      | r # _ \<Rightarrow> Some (fst (rowcol v (max (fst r) (snd r)))))"

definition clear_statusbar :: "view \<Rightarrow> action list" where
  "clear_statusbar v = [Erase_status (view_id v) ''flake8-tip'']"

text \<open>\<^verbatim>\<open>sep.join(xs)\<close>\<close>

fun py_join :: "string \<Rightarrow> string list \<Rightarrow> string" where
  "py_join sep [] = []"
| "py_join sep [x] = x"
| "py_join sep (x # y # ys) = x @ sep @ py_join sep (y # ys)"

definition update_statusbar :: "view \<Rightarrow> plugin_state \<Rightarrow> action list" where
  "update_statusbar v ps =
     (case ERRORS_IN_VIEWS ps (view_id v) of
        None \<Rightarrow> []
      | Some errs_of_view \<Rightarrow>
         if sel v = [] then []
         else (case get_current_line v of
                 None \<Rightarrow> []
               | Some current_line \<Rightarrow>
                  (case errs_of_view current_line of
                     Some errors \<Rightarrow>
                       [Set_status (view_id v) ''flake8-tip'' (''flake8: '' @ py_join '' / '' errors)]
                   | None \<Rightarrow> clear_statusbar v)))"

section \<open>Flake8LintBackground\<close>

text \<open>
  \<open>_lintOnLoad\<close>. \<open>Set_timeout (view_id v) 100\<close> is
  \<^verbatim>\<open>sublime.set_timeout(lambda: self._lintOnLoad(view, True), 100)\<close>: every timer the
  function arms calls it again with \<open>retry = True\<close>.
\<close>

definition lintOnLoad :: "view \<Rightarrow> bool \<Rightarrow> action list \<times> py_error option" where
  "lintOnLoad v retry =
     (if \<not> retry then ([Set_timeout (view_id v) 100], None)
      else if is_loading v then ([Set_timeout (view_id v) 100], None)
      else (case view_window v of
              None \<Rightarrow> ([Set_timeout (view_id v) 100], None)
            | Some win \<Rightarrow>
               (case active_view win of
                  None \<Rightarrow> ([], Some AttributeError)
                | Some a \<Rightarrow>
                   if a \<noteq> view_id v then ([], None)
                   else ([Run_command (view_id v) ''flake8_lint''], None))))"

definition on_load :: "world \<Rightarrow> view \<Rightarrow> action list \<times> py_error option" where
  "on_load w v =
     (if is_scratch v then ([], None)
      else if truthy (get_default (settings w) ''lint_on_load'' (JBool False))
      then lintOnLoad v False
      else ([], None))"

text \<open>
  \<^verbatim>\<open>view.run_command('flake8_lint')\<close> runs \<open>Flake8LintCommand.run\<close> on the view: the
  handler records the call and goes on with what \<open>run\<close> does.
\<close>

definition on_post_save :: "world \<Rightarrow> view \<Rightarrow> plugin_state \<Rightarrow> outcome" where
  "on_post_save w v ps =
     (if is_scratch v then (ps, [], None)
      else if truthy (get_default (settings w) ''lint_on_save'' (JBool True))
      then (case run w v ps of
              (ps', acts, r) \<Rightarrow> (ps', Run_command (view_id v) ''flake8_lint'' # acts, r))
      else (ps, [], None))"

definition on_selection_modified :: "view \<Rightarrow> plugin_state \<Rightarrow> plugin_state \<times> action list" where
  "on_selection_modified v ps =
     (if is_scratch v then (ps, [])
      else (case get_current_line v of
              None \<Rightarrow>
                (if last_selected_line ps \<noteq> None
                 then (ps\<lparr>last_selected_line := None\<rparr>, clear_statusbar v)
                 else (ps, []))
            | Some current_line \<Rightarrow>
                (if Some current_line \<noteq> last_selected_line ps
                 then (ps\<lparr>last_selected_line := Some current_line\<rparr>,
                       update_statusbar v (ps\<lparr>last_selected_line := Some current_line\<rparr>))
                 else (ps, []))))"

text \<open>
  The events the editor sends to an event listener. The class defines \<open>on_load\<close>,
  \<open>on_post_save\<close> and \<open>on_selection_modified\<close> and no other handler, so for any other
  event, the closing of a view among them, no code of the plugin runs. \<open>on_load\<close> itself
  only arms the timer of \<open>_lintOnLoad\<close>.
\<close>

datatype event =
    On_new | On_clone | On_load | On_close | On_pre_save | On_post_save
  | On_modified | On_selection_modified | On_activated | On_deactivated

definition handle_event :: "world \<Rightarrow> event \<Rightarrow> view \<Rightarrow> plugin_state \<Rightarrow> outcome" where
  "handle_event w ev v ps =
     (case ev of
        On_load \<Rightarrow> (ps, on_load w v)
      | On_post_save \<Rightarrow> on_post_save w v ps
      | On_selection_modified \<Rightarrow>
          (case on_selection_modified v ps of (ps', acts) \<Rightarrow> (ps', acts, None))
      | _ \<Rightarrow> (ps, [], None))"

text \<open>
  The timer of \<open>_lintOnLoad\<close>, driven by the editor: \<open>vs\<close> holds the view as it is at
  each call (the first call, then one call per timer that fires), and the result lists
  what each call did. A call that arms no timer is the last one; a list \<open>vs\<close> that ends
  while a timer is armed is an observation that stops there.
\<close>

fun lintOnLoad_calls :: "bool \<Rightarrow> view list \<Rightarrow> (action list \<times> py_error option) list" where
  "lintOnLoad_calls retry [] = []"
| "lintOnLoad_calls retry (v # vs) =
     (let r = lintOnLoad v retry
      in r # (if fst r = [Set_timeout (view_id v) 100] then lintOnLoad_calls True vs else []))"

section \<open>Notions used in the statements\<close>

text \<open>
  The stripped text of the line an error is on, the quick-panel entry built for an error,
  the three guards of the loop body that end in \<^verbatim>\<open>continue\<close> (an error passes them when
  its line has no noqa comment, its text has a code, and neither \<open>select\<close> nor \<open>ignore\<close>
  matches the code), the region computed for an error, and the state after the body has
  appended an error.
\<close>

definition line_text_of :: "view \<Rightarrow> lint_error \<Rightarrow> string" where
  "line_text_of v e = strip (substr v (full_line v (text_point v (fst e - 1) 0)))"

definition format_error :: "view \<Rightarrow> lint_error \<Rightarrow> entry" where
  "format_error v e = (snd (snd e), str_of_int (fst e - 1 + 1) @ '': '' @ line_text_of v e)"

definition not_filtered :: "view \<Rightarrow> jvalue \<Rightarrow> jvalue \<Rightarrow> lint_error \<Rightarrow> bool" where
  "not_filtered v select ignore e \<longleftrightarrow>
     \<not> skip_line (line_text_of v e) \<and>
     (case split_code (snd (snd e)) of
        Inl err \<Rightarrow> False
      | Inr code \<Rightarrow> code_matches select code = Inr False \<and> code_matches ignore code = Inr False)"

definition region_of :: "view \<Rightarrow> lint_error \<Rightarrow> region" where
  "region_of v e =
     error_region (text_point v (fst e - 1) 0)
       (substr v (full_line v (text_point v (fst e - 1) 0)))
       (takeWhile (\<lambda>c. c \<noteq> CHR '' '') (snd (snd e))) (fst (snd e))"

definition add_error :: "view \<Rightarrow> jvalue \<Rightarrow> jvalue \<Rightarrow> jvalue \<Rightarrow> loop_state \<Rightarrow> lint_error \<Rightarrow> loop_state" where
  "add_error v h p m st e =
     \<lparr>errors_to_show = errors_to_show st @ [format_error v e],
      errors_list_filtered = (if truthy p then errors_list_filtered st @ [e] else errors_list_filtered st),
      regions = (if truthy h \<or> truthy m
                 then regions st @ [region_of v e]
                 else regions st),
      view_errors = setdefault_append (view_errors st) (fst e - 1) (snd (snd e))\<rparr>"

text \<open>The calls of the lint engine among the calls made.\<close>

fun is_lint_call :: "action \<Rightarrow> bool" where
  "is_lint_call (Call_lint f s) = True"
| "is_lint_call (Call_lint_external f s i l) = True"
| "is_lint_call _ = False"

text \<open>Reading \<open>ERRORS_IN_VIEWS\<close>: whether a view has an entry, and the errors recorded for
  a line of a view.\<close>

definition has_errors :: "plugin_state \<Rightarrow> nat \<Rightarrow> bool" where
  "has_errors ps n = (case ERRORS_IN_VIEWS ps n of None \<Rightarrow> False | Some d \<Rightarrow> True)"

definition errors_on :: "plugin_state \<Rightarrow> nat \<Rightarrow> int \<Rightarrow> string list" where
  "errors_on ps n l =
     (case ERRORS_IN_VIEWS ps n of
        None \<Rightarrow> []
      | Some d \<Rightarrow> (case d l of None \<Rightarrow> [] | Some xs \<Rightarrow> xs))"

section \<open>A concrete buffer and environment, for the examples\<close>

text \<open>
  A buffer given by its lines, each with its line end: \<open>text_point\<close> is the offset of a
  row and column, \<open>full_line\<close> the region of the line that holds a point, line end
  included, and \<open>substr\<close> the text of a region.
\<close>

definition buffer_text_point :: "string list \<Rightarrow> int \<Rightarrow> int \<Rightarrow> int" where
  "buffer_text_point ls row col = int (length (concat (take (nat row) ls))) + col"

fun buffer_full_line :: "string list \<Rightarrow> int \<Rightarrow> int \<Rightarrow> region" where
  "buffer_full_line [] a p = (a, a)"
| "buffer_full_line (l # ls) a p =
     (if p < a + int (length l) \<or> ls = [] then (a, a + int (length l))
      else buffer_full_line ls (a + int (length l)) p)"

definition buffer_substr :: "string list \<Rightarrow> region \<Rightarrow> string" where
  "buffer_substr ls r = take (nat (snd r - fst r)) (drop (nat (fst r)) (concat ls))"

definition buffer_view :: "nat \<Rightarrow> string list \<Rightarrow> view" where
  "buffer_view n ls =
     \<lparr>view_id = n, file_name = Some ''/p/a.py'',
      match_selector = (\<lambda>_ s. s = ''source.python''),
      is_dirty = False, is_scratch = False, is_loading = False,
      view_window = Some \<lparr>active_view = Some n\<rparr>,
      flake8lint = Map.empty, sel = [], rowcol = (\<lambda>_. (0, 0)),
      text_point = buffer_text_point ls,
      full_line = buffer_full_line ls 0,
      substr = buffer_substr ls\<rparr>"

definition example_lines :: "string list" where
  "example_lines = [''import os'' @ [CHR 0x0A],
                    ''  x = 1  # NOQA '' @ [CHR 0x0A],
                    ''    y = 2'' @ [CHR 0x0D, CHR 0x0A]]"

definition example_view :: view where
  "example_view = buffer_view 1 example_lines"

definition example_errors :: "lint_error list" where
  "example_errors = [(1, 0, ''E401 multiple imports on one line''),
                     (2, 4, ''E221 multiple spaces before operator''),
                     (3, 5, ''W291 trailing whitespace''),
                     (3, 0, ''W291 trailing whitespace'')]"

text \<open>An environment for the examples: a POSIX system on which no interpreter and no
  \<^verbatim>\<open>lint.py\<close> exists, and a file mask matches a name equal to it.\<close>

definition example_world :: world where
  "example_world =
     \<lparr>settings = [''highlight'' \<mapsto> JBool True, ''gutter_marks'' \<mapsto> JStr ''star''],
      os_name = ''posix'', os_sep = CHR ''/'',
      abspath = (\<lambda>p. p),
      basename = (\<lambda>p. last (py_split CHR ''/'' p)),
      path_join = py_join ''/'',
      path_exists = (\<lambda>p. Inr False),
      FLAKE_DIR = ''/plugin'', packages_path = ''/packages'',
      active_window_folders = [''/p''],
      fnmatch = (\<lambda>name pat. case pat of JStr s \<Rightarrow> Inr (s = name) | _ \<Rightarrow> Inl TypeError),
      set_iter = remdups,
      str_format = (\<lambda>x. case x of JStr s \<Rightarrow> s | _ \<Rightarrow> ''?''),
      skip_file = (\<lambda>f. False),
      load_flake8_config = (\<lambda>f g p. Map.empty),
      lint = (\<lambda>f s. example_errors),
      lint_external = (\<lambda>f s i l. example_errors)\<rparr>"

definition example_state :: plugin_state where
  "example_state = \<lparr>ERRORS_IN_VIEWS = Map.empty, errors_list = [1 \<mapsto> example_errors],
                     last_selected_line = None\<rparr>"

definition example_view_settings :: settings_dict where
  "example_view_settings =
     [''python_interpreter'' \<mapsto> JStr ''/no/python'', ''ignore_files'' \<mapsto> JInt 5]"

text \<open>The example view while it loads, and as a view of a window whose active view is
  another one.\<close>

definition loading_view :: view where
  "loading_view = example_view\<lparr>is_loading := True\<rparr>"

definition inactive_view :: view where
  "inactive_view = example_view\<lparr>view_window := Some \<lparr>active_view = Some 2\<rparr>\<rparr>"

text \<open>A state in which the example view has an entry left by an earlier run.\<close>

definition stale_state :: plugin_state where
  "stale_state =
     example_state\<lparr>ERRORS_IN_VIEWS := [1 \<mapsto> [5 \<mapsto> [''E303 too many blank lines'']]]\<rparr>"

text \<open>The example environment with the quick panel, highlighting and gutter marks off.\<close>

definition quiet_world :: world where
  "quiet_world = example_world\<lparr>settings := [''popup'' \<mapsto> JBool False]\<rparr>"

section \<open>Lemmas\<close>

subsection \<open>The loop body and the loop\<close>

lemma step_filtered:
  "\<not> not_filtered v s i e \<Longrightarrow>
     show_errors_step v s i h p m st e = Inr st \<or> (\<exists>err. show_errors_step v s i h p m st e = Inl err)"
  by (auto simp: show_errors_step_def not_filtered_def line_text_of_def Let_def
           split: sum.splits bool.splits)

lemma step_not_filtered:
  "not_filtered v s i e \<Longrightarrow>
     show_errors_step v s i h p m st e =
       Inr (if format_error v e \<in> set (errors_to_show st) then st else add_error v h p m st e)"
  by (auto simp: show_errors_step_def not_filtered_def line_text_of_def Let_def format_error_def
                 add_error_def region_of_def split_code_def
           split: sum.splits bool.splits if_splits)

lemma step_noqa:
  "skip_line (line_text_of v e) \<Longrightarrow> show_errors_step v s i h p m st e = Inr st"
  by (simp add: show_errors_step_def line_text_of_def Let_def)


lemma add_error_fields:
  "errors_to_show (add_error v h p m st e) = errors_to_show st @ [format_error v e]"
  "errors_list_filtered (add_error v h p m st e) =
     (if truthy p then errors_list_filtered st @ [e] else errors_list_filtered st)"
  "regions (add_error v h p m st e) =
     (if truthy h \<or> truthy m
      then regions st @ [region_of v e]
      else regions st)"
  "view_errors (add_error v h p m st e) =
     setdefault_append (view_errors st) (fst e - 1) (snd (snd e))"
  by (simp_all add: add_error_def)

lemma step_Inr_cases:
  assumes "show_errors_step v s i h p m st e = Inr st1"
  shows "(st1 = st \<and> (\<not> not_filtered v s i e \<or> format_error v e \<in> set (errors_to_show st))) \<or>
         (st1 = add_error v h p m st e \<and> not_filtered v s i e \<and>
          format_error v e \<notin> set (errors_to_show st))"
proof (cases "not_filtered v s i e")
  case True
  from step_not_filtered[OF True, of h p m st] assms show ?thesis
    using True by (simp split: if_splits)
next
  case False
  from step_filtered[OF False, of h p m st] assms show ?thesis
    using False by auto
qed

lemma loop_Cons_Inr:
  "show_errors_loop v s i h p m st (e # es) = Inr st' \<Longrightarrow>
     \<exists>st1. show_errors_step v s i h p m st e = Inr st1 \<and>
           show_errors_loop v s i h p m st1 es = Inr st'"
  by (simp split: sum.splits)

lemma loop_append:
  "show_errors_loop v s i h p m st (xs @ ys) =
     (case show_errors_loop v s i h p m st xs of
        Inl err \<Rightarrow> Inl err
      | Inr st1 \<Rightarrow> show_errors_loop v s i h p m st1 ys)"
  by (induction xs arbitrary: st) (simp_all split: sum.splits)

lemma loop_entries:
  "show_errors_loop v s i h p m st es = Inr st' \<Longrightarrow>
     set (errors_to_show st') =
       set (errors_to_show st) \<union> format_error v ` {e \<in> set es. not_filtered v s i e}"
proof (induction es arbitrary: st)
  case Nil
  then show ?case by simp
next
  case (Cons e es)
  from loop_Cons_Inr[OF Cons.prems] obtain st1 where
    s1: "show_errors_step v s i h p m st e = Inr st1" and
    l1: "show_errors_loop v s i h p m st1 es = Inr st'" by blast
  have ih: "set (errors_to_show st') =
       set (errors_to_show st1) \<union> format_error v ` {e \<in> set es. not_filtered v s i e}"
    by (rule Cons.IH[OF l1])
  from step_Inr_cases[OF s1] show ?case
  proof (elim disjE conjE)
    assume "st1 = st" "\<not> not_filtered v s i e"
    with ih show ?thesis by auto
  next
    assume "st1 = st" "format_error v e \<in> set (errors_to_show st)"
    with ih show ?thesis by auto
  next
    assume "st1 = add_error v h p m st e" "not_filtered v s i e"
    with ih show ?thesis by (auto simp: add_error_fields)
  qed
qed

lemma loop_distinct:
  "show_errors_loop v s i h p m st es = Inr st' \<Longrightarrow> distinct (errors_to_show st) \<Longrightarrow>
     distinct (errors_to_show st')"
proof (induction es arbitrary: st)
  case Nil
  then show ?case by simp
next
  case (Cons e es)
  from loop_Cons_Inr[OF Cons.prems(1)] obtain st1 where
    s1: "show_errors_step v s i h p m st e = Inr st1" and
    l1: "show_errors_loop v s i h p m st1 es = Inr st'" by blast
  from step_Inr_cases[OF s1] Cons.prems(2) have "distinct (errors_to_show st1)"
    by (elim disjE conjE) (simp_all add: add_error_fields)
  from Cons.IH[OF l1 this] show ?case .
qed

lemma loop_filtered_subset:
  "show_errors_loop v s i h p m st es = Inr st' \<Longrightarrow>
     set (errors_list_filtered st') \<subseteq>
       set (errors_list_filtered st) \<union> {e \<in> set es. not_filtered v s i e}"
proof (induction es arbitrary: st)
  case Nil
  then show ?case by simp
next
  case (Cons e es)
  from loop_Cons_Inr[OF Cons.prems] obtain st1 where
    s1: "show_errors_step v s i h p m st e = Inr st1" and
    l1: "show_errors_loop v s i h p m st1 es = Inr st'" by blast
  have ih: "set (errors_list_filtered st') \<subseteq>
       set (errors_list_filtered st1) \<union> {e \<in> set es. not_filtered v s i e}"
    by (rule Cons.IH[OF l1])
  from step_Inr_cases[OF s1]
  have "set (errors_list_filtered st1) \<subseteq>
          set (errors_list_filtered st) \<union> {x \<in> {e}. not_filtered v s i x}"
    by (elim disjE conjE) (simp_all add: add_error_fields)
  with ih show ?case by auto
qed

lemma loop_view_errors:
  "show_errors_loop v s i h p m st es = Inr st' \<Longrightarrow> view_errors st' k = Some xs \<Longrightarrow>
     set xs \<subseteq> (case view_errors st k of None \<Rightarrow> {} | Some ys \<Rightarrow> set ys) \<union>
              (\<lambda>e. snd (snd e)) ` {e \<in> set es. not_filtered v s i e \<and> fst e - 1 = k}"
proof (induction es arbitrary: st)
  case Nil
  then show ?case by simp
next
  case (Cons e es)
  from loop_Cons_Inr[OF Cons.prems(1)] obtain st1 where
    s1: "show_errors_step v s i h p m st e = Inr st1" and
    l1: "show_errors_loop v s i h p m st1 es = Inr st'" by blast
  have ih: "set xs \<subseteq> (case view_errors st1 k of None \<Rightarrow> {} | Some ys \<Rightarrow> set ys) \<union>
              (\<lambda>e. snd (snd e)) ` {e \<in> set es. not_filtered v s i e \<and> fst e - 1 = k}"
    by (rule Cons.IH[OF l1 Cons.prems(2)])
  from step_Inr_cases[OF s1]
  have "(case view_errors st1 k of None \<Rightarrow> {} | Some ys \<Rightarrow> set ys) \<subseteq>
          (case view_errors st k of None \<Rightarrow> {} | Some ys \<Rightarrow> set ys) \<union>
          (\<lambda>e. snd (snd e)) ` {x \<in> {e}. not_filtered v s i x \<and> fst x - 1 = k}"
    by (elim disjE conjE)
       (auto simp: add_error_fields setdefault_append_def split: option.splits if_splits)
  with ih show ?case by auto
qed

lemma loop_view_errors_None:
  "show_errors_loop v s i h p m st es = Inr st' \<Longrightarrow> view_errors st k = None \<Longrightarrow>
     \<forall>e \<in> set es. fst e - 1 = k \<longrightarrow> \<not> not_filtered v s i e \<Longrightarrow> view_errors st' k = None"
proof (induction es arbitrary: st)
  case Nil
  then show ?case by simp
next
  case (Cons e es)
  from loop_Cons_Inr[OF Cons.prems(1)] obtain st1 where
    s1: "show_errors_step v s i h p m st e = Inr st1" and
    l1: "show_errors_loop v s i h p m st1 es = Inr st'" by blast
  from step_Inr_cases[OF s1] Cons.prems(2,3) have "view_errors st1 k = None"
    by (elim disjE conjE) (auto simp: add_error_fields setdefault_append_def)
  from Cons.IH[OF l1 this] Cons.prems(3) show ?case by simp
qed

lemma loop_popup_entries:
  "show_errors_loop v s i h p m st es = Inr st' \<Longrightarrow> truthy p \<Longrightarrow>
     errors_to_show st = map (format_error v) (errors_list_filtered st) \<Longrightarrow>
     errors_to_show st' = map (format_error v) (errors_list_filtered st')"
proof (induction es arbitrary: st)
  case Nil
  then show ?case by simp
next
  case (Cons e es)
  from loop_Cons_Inr[OF Cons.prems(1)] obtain st1 where
    s1: "show_errors_step v s i h p m st e = Inr st1" and
    l1: "show_errors_loop v s i h p m st1 es = Inr st'" by blast
  from step_Inr_cases[OF s1] Cons.prems(2,3)
  have "errors_to_show st1 = map (format_error v) (errors_list_filtered st1)"
    by (elim disjE conjE) (simp_all add: add_error_fields)
  from Cons.IH[OF l1 Cons.prems(2) this] show ?case .
qed

lemma loop_popup_regions:
  "show_errors_loop v s i h p m st es = Inr st' \<Longrightarrow> truthy p \<Longrightarrow> truthy h \<or> truthy m \<Longrightarrow>
     regions st = map (region_of v) (errors_list_filtered st) \<Longrightarrow>
     regions st' = map (region_of v) (errors_list_filtered st')"
proof (induction es arbitrary: st)
  case Nil
  then show ?case by simp
next
  case (Cons e es)
  from loop_Cons_Inr[OF Cons.prems(1)] obtain st1 where
    s1: "show_errors_step v s i h p m st e = Inr st1" and
    l1: "show_errors_loop v s i h p m st1 es = Inr st'" by blast
  from step_Inr_cases[OF s1] Cons.prems(2,3,4)
  have "regions st1 = map (region_of v) (errors_list_filtered st1)"
    by (elim disjE conjE) (simp_all add: add_error_fields region_of_def)
  from Cons.IH[OF l1 Cons.prems(2,3) this] show ?case .
qed

lemma loop_regions_length:
  "show_errors_loop v s i h p m st es = Inr st' \<Longrightarrow> truthy h \<or> truthy m \<Longrightarrow>
     length (regions st) = length (errors_to_show st) \<Longrightarrow>
     length (regions st') = length (errors_to_show st')"
proof (induction es arbitrary: st)
  case Nil
  then show ?case by simp
next
  case (Cons e es)
  from loop_Cons_Inr[OF Cons.prems(1)] obtain st1 where
    s1: "show_errors_step v s i h p m st e = Inr st1" and
    l1: "show_errors_loop v s i h p m st1 es = Inr st'" by blast
  from step_Inr_cases[OF s1] Cons.prems(2,3)
  have "length (regions st1) = length (errors_to_show st1)"
    by (elim disjE conjE) (simp_all add: add_error_fields)
  from Cons.IH[OF l1 Cons.prems(2) this] show ?case .
qed

subsection \<open>The formatted entry\<close>

lemma str_of_nat_no_colon: "CHR '':'' \<notin> set (str_of_nat n)"
proof (induction n rule: str_of_nat.induct)
  case (1 n)
  have d: "char_of (48 + k) \<noteq> CHR '':''" if "k < 10" for k :: nat
  proof
    assume "char_of (48 + k) = CHR '':''"
    then have "(of_char (char_of (48 + k)) :: nat) = of_char CHR '':''" by simp
    with that show False by simp
  qed
  show ?case
  proof (cases "n < 10")
    case True
    then show ?thesis using d[of n] by (subst str_of_nat.simps) simp
  next
    case False
    then show ?thesis using 1 d[of "n mod 10"] by (subst str_of_nat.simps) simp
  qed
qed

lemma str_of_int_no_colon: "CHR '':'' \<notin> set (str_of_int i)"
  by (simp add: str_of_int_def str_of_nat_no_colon)

lemma colon_split_unique:
  assumes "a @ '': '' @ x = b @ '': '' @ y" "CHR '':'' \<notin> set a" "CHR '':'' \<notin> set b"
  shows "x = y"
proof -
  have tw: "takeWhile (\<lambda>c. c \<noteq> CHR '':'') (u @ '': '' @ z) = u"
    if "CHR '':'' \<notin> set u" for u z :: string
    using that by (induction u) auto
  have "takeWhile (\<lambda>c. c \<noteq> CHR '':'') (a @ '': '' @ x) = a"
    using assms(2) by (rule tw)
  moreover have "takeWhile (\<lambda>c. c \<noteq> CHR '':'') (b @ '': '' @ y) = b"
    using assms(3) by (rule tw)
  ultimately have "a = b" using assms(1) by simp
  with assms(1) show ?thesis by simp
qed

lemma format_error_line_text:
  "format_error v e = format_error v e' \<Longrightarrow> line_text_of v e = line_text_of v e'"
  unfolding format_error_def
  using colon_split_unique[OF _ str_of_int_no_colon str_of_int_no_colon] by blast

subsection \<open>Errors the guards drop\<close>

lemma loop_drop_noqa:
  assumes "skip_line (line_text_of v e)"
  shows "show_errors_loop v s i h p m st (es1 @ e # es2) =
         show_errors_loop v s i h p m st (es1 @ es2)"
  by (simp add: loop_append step_noqa[OF assms] split: sum.splits)

lemma noqa_not_passing: "skip_line (line_text_of v e) \<Longrightarrow> \<not> not_filtered v s i e"
  by (simp add: not_filtered_def)

lemma same_line_text: "fst e' - 1 = fst e - 1 \<Longrightarrow> line_text_of v e' = line_text_of v e"
  by (simp add: line_text_of_def)

lemma startswith_comp_keeps:
  "startswith_comp code cs = Inr r \<Longrightarrow> JStr p \<in> set cs \<Longrightarrow> startswith code p \<Longrightarrow>
     JStr p \<in> set r"
proof (induction code cs arbitrary: r rule: startswith_comp.induct)
  case (1 code)
  then show ?case by simp
next
  case (2 code q cs)
  then show ?case by (auto split: sum.splits if_splits)
qed simp_all

lemma code_matches_list_hit:
  assumes "JStr p \<in> set cs" "startswith code p"
  shows "code_matches (JList cs) code \<noteq> Inr False"
proof -
  from assms(1) have ne: "cs \<noteq> []" by auto
  show ?thesis
  proof (cases "startswith_comp code cs")
    case (Inl err)
    with ne show ?thesis by (simp add: code_matches_def)
  next
    case (Inr r)
    from startswith_comp_keeps[OF Inr assms] have "r \<noteq> []" by auto
    with ne Inr show ?thesis by (simp add: code_matches_def)
  qed
qed

lemma or_empty_list_JList: "or_empty_list (JList cs) = JList cs"
  by (simp add: or_empty_list_def)

lemma collect_loop:
  "show_errors_collect stg v view_settings es =
     show_errors_loop v (or_empty_list (get_default view_settings ''select'' JNone))
       (or_empty_list (get_default view_settings ''ignore'' JNone))
       (get_default stg ''highlight'' (JBool False))
       (get_default stg ''popup'' (JBool True))
       (gutter_mark (get_default stg ''gutter_marks'' (JStr ''''))) loop_init es"
  by (simp add: show_errors_collect_def Let_def)

lemma loop_drop_filtered:
  assumes "\<not> not_filtered v s i e"
    and "show_errors_loop v s i h p m st (es1 @ e # es2) = Inr st'"
  shows "show_errors_loop v s i h p m st (es1 @ es2) = Inr st'"
proof -
  from assms(2) obtain st1 where
    a: "show_errors_loop v s i h p m st es1 = Inr st1" and
    b: "show_errors_loop v s i h p m st1 (e # es2) = Inr st'"
    by (auto simp: loop_append split: sum.splits)
  from loop_Cons_Inr[OF b] obtain st2 where
    c: "show_errors_step v s i h p m st1 e = Inr st2" and
    d: "show_errors_loop v s i h p m st2 es2 = Inr st'" by blast
  from step_Inr_cases[OF c] assms(1) have "st2 = st1" by blast
  with a d show ?thesis by (simp add: loop_append)
qed

lemma distinct_count_list_one: "distinct xs \<Longrightarrow> x \<in> set xs \<Longrightarrow> count_list xs x = 1"
  by (induction xs) auto

lemma show_errors_panel:
  assumes "Show_quick_panel n ents \<in> set (fst (snd (show_errors stg v view_settings ps)))"
  shows "\<exists>st. show_errors_collect stg v view_settings
                (case errors_list ps (view_id v) of None \<Rightarrow> [] | Some es \<Rightarrow> es) = Inr st \<and>
              ents = errors_to_show st"
  using assms
  by (auto simp: show_errors_def Let_def split: sum.splits option.splits if_splits)

subsection \<open>Regions\<close>

lemma lstrip_length:
  "int (length s) - int (length (lstrip s)) = int (length (takeWhile isspace s))"
proof -
  have "length s = length (takeWhile isspace s) + length (dropWhile isspace s)"
    by (metis length_append takeWhile_dropWhile_id)
  then show ?thesis by (simp add: lstrip_def)
qed

lemma rstrip_chars_split:
  "\<exists>nl. s = rstrip_chars chars s @ nl \<and> set nl \<subseteq> set chars"
proof -
  let ?P = "\<lambda>c. c \<in> set chars"
  have "rev s = takeWhile ?P (rev s) @ dropWhile ?P (rev s)" by simp
  then have "s = rev (dropWhile ?P (rev s)) @ rev (takeWhile ?P (rev s))"
    by (metis rev_append rev_rev_ident)
  moreover have "set (rev (takeWhile ?P (rev s))) \<subseteq> set chars"
    by (auto dest: set_takeWhileD)
  ultimately show ?thesis unfolding rstrip_chars_def by blast
qed

lemma region_of_explicit:
  assumes "split_code (snd (snd e)) = Inr code"
  shows "region_of v e =
     (let tp = text_point v (fst e - 1) 0;
          lt = rstrip_chars [CHR 0x0D, CHR 0x0A] (substr v (full_line v tp))
      in (if code = ''E501'' then tp + fst (snd e)
          else tp + int (length (takeWhile isspace lt)),
          tp + int (length lt)))"
proof -
  from assms have c: "takeWhile (\<lambda>c. c \<noteq> CHR '' '') (snd (snd e)) = code"
    by (auto simp: split_code_def split: if_splits)
  have "a + b - c = a + (b - c)" for a b c :: int by simp
  then show ?thesis
    by (simp add: region_of_def error_region_def Let_def c lstrip_length)
qed

lemma step_displayed:
  assumes "show_errors_step v s i h p m st e = Inr st1"
    and "errors_to_show st1 \<noteq> errors_to_show st"
  shows "st1 = add_error v h p m st e \<and> not_filtered v s i e"
  using step_Inr_cases[OF assms(1)] assms(2) by blast

lemma show_errors_add_regions:
  assumes "Add_regions n k regs sc mk fl \<in> set (fst (snd (show_errors stg v view_settings ps)))"
  shows "\<exists>st. show_errors_collect stg v view_settings
                (case errors_list ps (view_id v) of None \<Rightarrow> [] | Some es \<Rightarrow> es) = Inr st \<and>
              regs = regions st \<and>
              mk = gutter_mark (get_default stg ''gutter_marks'' (JStr '''')) \<and>
              (truthy (get_default stg ''highlight'' (JBool False)) \<or> truthy mk)"
  using assms
  by (auto simp: show_errors_def Let_def split: sum.splits option.splits if_splits)

subsection \<open>The calls made by run\<close>

lemma run_ignore_files_actions:
  "a \<in> set (fst (run_ignore_files w filename view_settings)) \<Longrightarrow>
     (\<exists>s. a = Print s) \<or>
     a = Error_message (dialog_prefix @ [CHR 0x27] @ ''ignore_files'' @
                          [CHR 0x27] @ '' option is not a list of file masks'')"
  by (auto simp: run_ignore_files_def Let_def split: sum.splits bool.splits if_splits)

lemma run_lint_actions:
  "a \<in> set (fst (run_lint w filename view_settings)) \<Longrightarrow>
     (\<exists>i. a = Error_message (dialog_prefix @ ''python interpreter '' @
                [CHR 0x27] @ str_format w i @ [CHR 0x27] @ '' is not found'')) \<or>
     a = Error_message (dialog_prefix @ ''sorry, can'' @ [CHR 0x27] @
                ''t find correct plugin path'') \<or>
     (\<exists>f s. a = Call_lint f s) \<or> (\<exists>f s i l. a = Call_lint_external f s i l)"
  by (auto simp: run_lint_def Let_def split: sum.splits bool.splits if_splits prod.splits)

lemma show_errors_actions:
  "a \<in> set (fst (snd (show_errors stg v view_settings ps))) \<Longrightarrow>
     (\<exists>n k regs sc mk fl. a = Add_regions n k regs sc mk fl) \<or> (\<exists>n ents. a = Show_quick_panel n ents)"
  by (auto simp: show_errors_def Let_def split: sum.splits option.splits if_splits)

lemma run_actions:
  assumes "a \<in> set (fst (snd (run w v ps)))"
  shows "(\<exists>n k. a = Erase_regions n k) \<or> (\<exists>n k. a = Erase_status n k) \<or>
         (\<exists>n c. a = Run_command n c) \<or> (\<exists>s. a = Message_dialog s) \<or>
         (\<exists>f vs. a \<in> set (fst (run_ignore_files w f vs))) \<or>
         (\<exists>f vs. a \<in> set (fst (run_lint w f vs))) \<or>
         (\<exists>vs ps1. a \<in> set (fst (snd (show_errors (settings w) v vs ps1))))"
  using assms
  apply (simp add: run_def Let_def split: option.splits if_splits sum.splits prod.splits bool.splits)
  apply (elim disjE; (blast | metis fst_conv snd_conv))+
  done

lemma gutter_mark_in:
  "gutter_mark x \<in> set [JStr '''', JStr ''dot'', JStr ''circle'', JStr ''bookmark'', JStr ''cross'']"
  by (simp add: gutter_mark_def)

lemma run_add_regions:
  assumes "Add_regions n k regs sc mk fl \<in> set (fst (snd (run w v ps)))"
  shows "\<exists>vs ps1. Add_regions n k regs sc mk fl
           \<in> set (fst (snd (show_errors (settings w) v vs ps1)))"
proof -
  let ?a = "Add_regions n k regs sc mk fl"
  have i: "?a \<notin> set (fst (run_ignore_files w f vs))" for f vs
    using run_ignore_files_actions[of ?a w f vs] by auto
  have l: "?a \<notin> set (fst (run_lint w f vs))" for f vs
    using run_lint_actions[of ?a w f vs] by auto
  from run_actions[OF assms] i l show ?thesis by auto
qed

lemma run_lint_internal:
  assumes "i = get_default vs ''python_interpreter'' (JStr ''auto'')"
    and "\<not> truthy i \<or> i = JStr ''internal''"
  shows "run_lint w f vs = ([Call_lint f vs], Inr (lint w f vs))"
  using assms by (simp add: run_lint_def Let_def)

lemma filter_lint_call_messages: "filter is_lint_call (map Error_message msgs) = []"
  by (induction msgs) simp_all

lemma run_lint_shape:
  assumes i: "i = get_default vs ''python_interpreter'' (JStr ''auto'')"
    and ext: "truthy i" "i \<noteq> JStr ''internal''"
    and i': "i' = (if i = JStr ''auto''
               then (if os_name w = ''nt'' then JStr ''pythonw'' else JStr ''python'') else i)"
  shows "(\<exists>err msgs. run_lint w f vs = (map Error_message msgs, Inl err)) \<or>
         (\<exists>linter msgs.
            linter \<in> {path_join w [FLAKE_DIR w, ''lint.py''],
                       path_join w [packages_path w, ''Python Flake8 Lint'', ''lint.py'']} \<and>
            run_lint w f vs = (map Error_message msgs @ [Call_lint_external f vs i' linter],
                               Inr (lint_external w f vs i' linter)))"
proof -
  let ?l1 = "path_join w [FLAKE_DIR w, ''lint.py'']"
  let ?l2 = "path_join w [packages_path w, ''Python Flake8 Lint'', ''lint.py'']"
  let ?R = "\<lambda>r. case r of
      Inl err \<Rightarrow> ([], Inl err)
    | Inr (interpreter, acts1) \<Rightarrow>
       (case path_exists w (JStr ?l1) of
          Inl err \<Rightarrow> (acts1, Inl err)
        | Inr ex1 \<Rightarrow>
           (case path_exists w (JStr (if \<not> ex1 then ?l2 else ?l1)) of
              Inl err \<Rightarrow> (acts1, Inl err)
            | Inr ex2 \<Rightarrow>
               (acts1 @ (if \<not> ex2
                         then [Error_message (dialog_prefix @ ''sorry, can'' @ [CHR 0x27] @
                                 ''t find correct plugin path'')]
                         else []) @
                  [Call_lint_external f vs interpreter (if \<not> ex1 then ?l2 else ?l1)],
                Inr (lint_external w f vs interpreter (if \<not> ex1 then ?l2 else ?l1)))))"
  have tail: "(\<exists>err msgs. ?R (Inr (i', map Error_message ms)) = (map Error_message msgs, Inl err)) \<or>
         (\<exists>linter msgs. linter \<in> {?l1, ?l2} \<and>
            ?R (Inr (i', map Error_message ms)) =
              (map Error_message msgs @ [Call_lint_external f vs i' linter],
               Inr (lint_external w f vs i' linter)))" for ms
  proof (cases "path_exists w (JStr ?l1)")
    case (Inl err)
    then show ?thesis by auto
  next
    case ex1: (Inr ex1)
    show ?thesis
    proof (cases "path_exists w (JStr (if \<not> ex1 then ?l2 else ?l1))")
      case (Inl err)
      with ex1 show ?thesis by auto
    next
      case ex2: (Inr ex2)
      let ?msgs = "ms @ (if \<not> ex2 then [dialog_prefix @ ''sorry, can'' @ [CHR 0x27] @
                                 ''t find correct plugin path''] else [])"
      let ?l = "if \<not> ex1 then ?l2 else ?l1"
      have "?R (Inr (i', map Error_message ms)) =
              (map Error_message ?msgs @ [Call_lint_external f vs i' ?l],
               Inr (lint_external w f vs i' ?l))"
        using ex1 ex2 by simp
      moreover have "?l \<in> {?l1, ?l2}" by simp
      ultimately show ?thesis by blast
    qed
  qed
  show ?thesis
  proof (cases "i = JStr ''auto''")
    case True
    with i ext have "run_lint w f vs = ?R (Inr (i', []))"
      by (simp add: run_lint_def Let_def i' split: sum.splits)
    with tail[of "[]"] show ?thesis by simp
  next
    case False
    show ?thesis
    proof (cases "path_exists w i")
      case (Inl err)
      with False i ext have "run_lint w f vs = ([], Inl err)"
        by (simp add: run_lint_def Let_def)
      then have "run_lint w f vs = (map Error_message [], Inl err)" by simp
      then show ?thesis by blast
    next
      case (Inr ex)
      let ?ms = "if \<not> ex then [dialog_prefix @ ''python interpreter '' @
                     [CHR 0x27] @ str_format w i @ [CHR 0x27] @ '' is not found''] else []"
      from False Inr i ext have "run_lint w f vs = ?R (Inr (i', map Error_message ?ms))"
        by (simp add: run_lint_def Let_def i' split: sum.splits)
      with tail[of ?ms] show ?thesis by simp
    qed
  qed
qed

lemma run_ignore_files_no_lint_call:
  "filter is_lint_call (fst (run_ignore_files w f vs)) = []"
proof -
  have "\<not> is_lint_call a" if "a \<in> set (fst (run_ignore_files w f vs))" for a
    using run_ignore_files_actions[OF that] by auto
  then show ?thesis by (simp add: filter_empty_conv)
qed

lemma show_errors_no_lint_call:
  "filter is_lint_call (fst (snd (show_errors stg v vs ps))) = []"
proof -
  have "\<not> is_lint_call a" if "a \<in> set (fst (snd (show_errors stg v vs ps)))" for a
    using show_errors_actions[OF that] by auto
  then show ?thesis by (simp add: filter_empty_conv)
qed

lemma show_errors_no_message:
  "Error_message m \<notin> set (fst (snd (show_errors stg v vs ps)))"
  using show_errors_actions[of "Error_message m" stg v vs ps] by auto

lemma run_reaches_lint:
  assumes "file_name v = Some fn" "fn \<noteq> []" "match_selector v 0 ''source.python''"
    and "\<not> skip_file w (abspath w fn)" "get_view_settings w v = Inr vs"
    and "snd (run_ignore_files w (abspath w fn) vs) = Inr False"
  shows "\<exists>pre post. fst (snd (run w v ps)) = pre @ fst (run_lint w (abspath w fn) vs) @ post \<and>
           set (fst (run_ignore_files w (abspath w fn) vs)) \<subseteq> set pre \<and>
           filter is_lint_call pre = [] \<and> filter is_lint_call post = [] \<and>
           (\<forall>m. Error_message m \<notin> set post)"
proof -
  obtain acts1 where r1: "run_ignore_files w (abspath w fn) vs = (acts1, Inr False)"
    using assms(6) by (cases "run_ignore_files w (abspath w fn) vs") auto
  obtain acts3 r3 where r3: "run_lint w (abspath w fn) vs = (acts3, r3)"
    by (cases "run_lint w (abspath w fn) vs") auto
  let ?acts0 = "[Erase_regions (view_id v) ''flake8-errors'', Erase_status (view_id v) ''flake8-tip'']"
  let ?acts2 = "if is_dirty v then [Run_command (view_id v) ''save''] else []"
  let ?pre = "?acts0 @ acts1 @ ?acts2"
  have n1: "filter is_lint_call acts1 = []"
    using run_ignore_files_no_lint_call[of w "abspath w fn" vs] r1 by simp
  have pre: "filter is_lint_call ?pre = []" using n1 by simp
  have sub: "set (fst (run_ignore_files w (abspath w fn) vs)) \<subseteq> set ?pre" using r1 by auto
  show ?thesis
  proof (cases r3)
    case (Inl err)
    with assms(1-5) r1 r3 have "fst (snd (run w v ps)) = ?pre @ acts3 @ []"
      by (simp add: run_def Let_def)
    with pre sub r3 show ?thesis by (metis filter.simps(1) fst_conv empty_iff list.set(1))
  next
    case (Inr errs)
    let ?ps1 = "ps\<lparr>errors_list := (errors_list ps)(view_id v \<mapsto> errs)\<rparr>"
    let ?post = "if errs \<noteq> [] then fst (snd (show_errors (settings w) v vs ?ps1))
                 else if truthy (get_default (settings w) ''report_on_success'' (JBool False))
                 then [Message_dialog ''Flake8 Lint: SUCCESS''] else []"
    from Inr assms(1-5) r1 r3 have "fst (snd (run w v ps)) = ?pre @ acts3 @ ?post"
      by (simp add: run_def Let_def split: prod.splits)
    moreover have "filter is_lint_call ?post = []"
      by (simp add: show_errors_no_lint_call)
    moreover have "\<forall>m. Error_message m \<notin> set ?post"
      by (simp add: show_errors_no_message)
    ultimately show ?thesis using pre sub r3 by (metis fst_conv)
  qed
qed

subsection \<open>Lint on load\<close>

lemma lintOnLoad_calls_nth:
  "k < length (lintOnLoad_calls r vs) \<Longrightarrow>
     k < length vs \<and>
     lintOnLoad_calls r vs ! k = lintOnLoad (vs ! k) (r \<or> 0 < k) \<and>
     (Suc k < length (lintOnLoad_calls r vs) \<longrightarrow>
        fst (lintOnLoad_calls r vs ! k) = [Set_timeout (view_id (vs ! k)) 100])"
proof (induction vs arbitrary: r k)
  case Nil
  then show ?case by simp
next
  case (Cons v vs)
  show ?case
  proof (cases k)
    case 0
    then show ?thesis by (auto simp: Let_def split: if_splits)
  next
    case (Suc j)
    with Cons.prems have re: "fst (lintOnLoad v r) = [Set_timeout (view_id v) 100]"
      by (auto simp: Let_def split: if_splits)
    with Cons.prems Suc have "j < length (lintOnLoad_calls True vs)"
      by (simp add: Let_def)
    from Cons.IH[OF this] re Suc show ?thesis by (auto simp: Let_def)
  qed
qed

lemma lintOnLoad_rearm:
  "\<not> retry \<or> is_loading v \<or> view_window v = None \<Longrightarrow>
     lintOnLoad v retry = ([Set_timeout (view_id v) 100], None)"
  by (auto simp: lintOnLoad_def)

lemma lintOnLoad_runs:
  "Run_command n c \<in> set (fst (lintOnLoad v retry)) \<Longrightarrow>
     retry \<and> \<not> is_loading v \<and>
     (\<exists>win. view_window v = Some win \<and> active_view win = Some (view_id v)) \<and>
     n = view_id v \<and> c = ''flake8_lint''"
  by (auto simp: lintOnLoad_def split: if_splits option.splits)

lemma lintOnLoad_ready:
  "retry \<Longrightarrow> \<not> is_loading v \<Longrightarrow> view_window v = Some win \<Longrightarrow> active_view win = Some a \<Longrightarrow>
     lintOnLoad v retry =
       (if a = view_id v then [Run_command (view_id v) ''flake8_lint''] else [], None)"
  by (auto simp: lintOnLoad_def)

subsection \<open>The stored dictionary\<close>

lemma show_errors_state:
  "show_errors_collect stg v vs (case errors_list ps (view_id v) of None \<Rightarrow> [] | Some es \<Rightarrow> es)
     = Inr st \<Longrightarrow>
   ERRORS_IN_VIEWS (fst (show_errors stg v vs ps)) = (ERRORS_IN_VIEWS ps)(view_id v \<mapsto> view_errors st)"
  by (simp add: show_errors_def Let_def split: option.splits)

lemma show_errors_state_raise:
  "show_errors_collect stg v vs (case errors_list ps (view_id v) of None \<Rightarrow> [] | Some es \<Rightarrow> es)
     = Inl err \<Longrightarrow>
   show_errors stg v vs ps = (ps, [], Some err)"
  by (simp add: show_errors_def Let_def)

lemma show_errors_other_views:
  "n \<noteq> view_id v \<Longrightarrow>
   ERRORS_IN_VIEWS (fst (show_errors stg v vs ps)) n = ERRORS_IN_VIEWS ps n"
  by (simp add: show_errors_def Let_def split: sum.splits option.splits)

lemma run_ignore_files_no_panel:
  "Show_quick_panel n ents \<notin> set (fst (run_ignore_files w f vs))"
  using run_ignore_files_actions[of "Show_quick_panel n ents" w f vs] by auto

lemma run_lint_no_panel:
  "Show_quick_panel n ents \<notin> set (fst (run_lint w f vs))"
  using run_lint_actions[of "Show_quick_panel n ents" w f vs] by auto

lemma run_state_cases:
  "(ERRORS_IN_VIEWS (fst (run w v ps)) = ERRORS_IN_VIEWS ps \<and>
      (\<forall>n ents. Show_quick_panel n ents \<notin> set (fst (snd (run w v ps))))) \<or>
   (\<exists>vs errs pre.
      errs \<noteq> [] \<and>
      fst (run w v ps) =
        fst (show_errors (settings w) v vs (ps\<lparr>errors_list := (errors_list ps)(view_id v \<mapsto> errs)\<rparr>)) \<and>
      fst (snd (run w v ps)) =
        pre @ fst (snd (show_errors (settings w) v vs
                     (ps\<lparr>errors_list := (errors_list ps)(view_id v \<mapsto> errs)\<rparr>))) \<and>
      (\<forall>n ents. Show_quick_panel n ents \<notin> set pre))"
proof -
  let ?same = "ERRORS_IN_VIEWS (fst (run w v ps)) = ERRORS_IN_VIEWS ps \<and>
      (\<forall>n ents. Show_quick_panel n ents \<notin> set (fst (snd (run w v ps))))"
  show ?thesis
  proof (cases "file_name v")
    case None
    then have ?same by (simp add: run_def)
    then show ?thesis ..
  next
    case (Some fn)
    show ?thesis
    proof (cases "fn = [] \<or> \<not> match_selector v 0 ''source.python'' \<or> skip_file w (abspath w fn)")
      case True
      with Some have ?same by (auto simp: run_def Let_def)
      then show ?thesis ..
    next
      case False
      then have g: "fn \<noteq> []" "match_selector v 0 ''source.python''" "\<not> skip_file w (abspath w fn)"
        by simp_all
      show ?thesis
      proof (cases "get_view_settings w v")
        case (Inl err)
        with Some g have ?same by (simp add: run_def Let_def)
        then show ?thesis ..
      next
        case (Inr vs)
        obtain acts1 r1 where r1: "run_ignore_files w (abspath w fn) vs = (acts1, r1)"
          by (cases "run_ignore_files w (abspath w fn) vs") auto
        have p1: "Show_quick_panel n ents \<notin> set acts1" for n ents
          using run_ignore_files_no_panel[of n ents w "abspath w fn" vs] r1 by simp
        show ?thesis
        proof (cases "r1 = Inr False")
          case False
          with Some g Inr r1 p1 have ?same
            by (cases r1) (auto simp: run_def Let_def)
          then show ?thesis ..
        next
          case True
          obtain acts3 r3 where r3: "run_lint w (abspath w fn) vs = (acts3, r3)"
            by (cases "run_lint w (abspath w fn) vs") auto
          have p3: "Show_quick_panel n ents \<notin> set acts3" for n ents
            using run_lint_no_panel[of n ents w "abspath w fn" vs] r3 by simp
          show ?thesis
          proof (cases r3)
            case (Inl err)
            with Some g Inr r1 True r3 p1 p3 have ?same
              by (auto simp: run_def Let_def)
            then show ?thesis ..
          next
            case errs: (Inr errs)
            show ?thesis
            proof (cases "errs = []")
              case True
              with Some g Inr r1 \<open>r1 = Inr False\<close> r3 errs p1 p3 have ?same
                by (auto simp: run_def Let_def)
              then show ?thesis ..
            next
              case False
              let ?ps1 = "ps\<lparr>errors_list := (errors_list ps)(view_id v \<mapsto> errs)\<rparr>"
              let ?pre = "[Erase_regions (view_id v) ''flake8-errors'',
                           Erase_status (view_id v) ''flake8-tip''] @ acts1 @
                          (if is_dirty v then [Run_command (view_id v) ''save''] else []) @ acts3"
              from Some g Inr r1 \<open>r1 = Inr False\<close> r3 errs False
              have "fst (run w v ps) = fst (show_errors (settings w) v vs ?ps1)"
                   "fst (snd (run w v ps)) = ?pre @ fst (snd (show_errors (settings w) v vs ?ps1))"
                by (simp_all add: run_def Let_def split: prod.splits)
              moreover have "\<forall>n ents. Show_quick_panel n ents \<notin> set ?pre"
                using p1 p3 by simp
              ultimately show ?thesis using False by blast
            qed
          qed
        qed
      qed
    qed
  qed
qed

subsection \<open>Stripping twice\<close>

lemma strip_idem: "strip (strip s) = strip s"
proof -
  let ?t = "dropWhile isspace s"
  let ?u = "rev (dropWhile isspace (rev ?t))"
  have t: "?t = ?u @ rev (takeWhile isspace (rev ?t))"
    by (metis rev_append rev_rev_ident takeWhile_dropWhile_id)
  have 1: "dropWhile isspace ?u = ?u"
  proof (cases "?u = []")
    case True
    then show ?thesis by (metis dropWhile.simps(1))
  next
    case False
    with t have "hd ?u = hd ?t" by (metis hd_append2)
    moreover from False t have "?t \<noteq> []" by (metis append_is_Nil_conv)
    then have "\<not> isspace (hd ?t)" by (rule hd_dropWhile)
    ultimately show ?thesis using False by (simp add: dropWhile_eq_self_iff)
  qed
  have 2: "rev (dropWhile isspace (rev ?u)) = ?u" by simp
  show ?thesis by (simp add: strip_def lstrip_def rstrip_def 1)
qed

lemma skip_line_strip: "skip_line (strip s) = endswith (lower (strip s)) ''# noqa''"
  by (simp add: skip_line_def strip_idem)

lemma run_shows_errors:
  assumes "file_name v = Some fn" "fn \<noteq> []" "match_selector v 0 ''source.python''"
    and "\<not> skip_file w (abspath w fn)" "get_view_settings w v = Inr vs"
    and "snd (run_ignore_files w (abspath w fn) vs) = Inr False"
    and "snd (run_lint w (abspath w fn) vs) = Inr errs" "errs \<noteq> []"
  shows "fst (run w v ps) =
           fst (show_errors (settings w) v vs
                  (ps\<lparr>errors_list := (errors_list ps)(view_id v \<mapsto> errs)\<rparr>))"
proof -
  obtain acts1 where r1: "run_ignore_files w (abspath w fn) vs = (acts1, Inr False)"
    using assms(6) by (cases "run_ignore_files w (abspath w fn) vs") auto
  obtain acts3 where r3: "run_lint w (abspath w fn) vs = (acts3, Inr errs)"
    using assms(7) by (cases "run_lint w (abspath w fn) vs") auto
  from assms(1-5,8) r1 r3 show ?thesis
    by (simp add: run_def Let_def split: prod.splits)
qed

lemma on_post_save_runs:
  "\<not> is_scratch v \<Longrightarrow> truthy (get_default (settings w) ''lint_on_save'' (JBool True)) \<Longrightarrow>
     fst (handle_event w On_post_save v ps) = fst (run w v ps)"
  by (simp add: handle_event_def on_post_save_def split: prod.splits)


subsection \<open>Whitespace and capitals above the ASCII range\<close>

text \<open>
  Python's \<open>strip\<close>, \<open>lstrip\<close> and \<open>lower\<close> also act on the Latin-1 characters:
  a no-break space or a next-line character after the comment is stripped before the
  comparison, the capitals from 0xC0 to 0xDE other than the multiplication sign are lowered,
  and a leading no-break space counts as indentation of the highlighted line.
\<close>

lemma skip_line_nbsp: "skip_line (''x = 1 # noqa'' @ [CHR 0xA0])"
  by code_simp

lemma skip_line_nel: "skip_line (''x = 1 # NOQA'' @ [CHR 0x85])"
  by code_simp

lemma lower_latin1:
  "lower [CHR 0xC0, CHR 0xD7, CHR 0xDE, CHR 0xDF, CHR ''Q''] =
     [CHR 0xE0, CHR 0xD7, CHR 0xFE, CHR 0xDF, CHR ''q'']"
  by code_simp

lemma region_of_nbsp:
  "region_of (buffer_view 1 [[CHR 0xA0, CHR 0x20] @ ''x = 1;y'' @ [CHR 0x0A]])
     (1, 0, ''E702 multiple statements'') = (2, 9)"
  by code_simp
section \<open>The claims\<close>

text \<open>
  C2 (noqa suppression). An error whose line, stripped and lowercased, ends with
  \<^verbatim>\<open># noqa\<close> is skipped by the loop body, which leaves every list and the dictionary as
  they were. After the loop its entry is not in the quick-panel list, the error is not in
  the filtered list and the dictionary has no key for its line; and the calls made to the
  editor and the dictionary stored in \<open>ERRORS_IN_VIEWS\<close> are those of the same run without
  this error, so it adds no region either.
\<close>

theorem noqa_suppression:
  assumes "endswith (lower (strip (substr v (full_line v (text_point v (fst e - 1) 0)))))
             ''# noqa''"
  shows "show_errors_step v select ignore is_highlight is_popup mark st e = Inr st \<and>
         (\<forall>st'. show_errors_collect stg v view_settings es = Inr st' \<longrightarrow>
            format_error v e \<notin> set (errors_to_show st') \<and>
            e \<notin> set (errors_list_filtered st') \<and>
            view_errors st' (fst e - 1) = None) \<and>
         snd (show_errors stg v view_settings
                (ps\<lparr>errors_list := (errors_list ps)(view_id v \<mapsto> es1 @ e # es2)\<rparr>)) =
         snd (show_errors stg v view_settings
                (ps\<lparr>errors_list := (errors_list ps)(view_id v \<mapsto> es1 @ es2)\<rparr>)) \<and>
         ERRORS_IN_VIEWS (fst (show_errors stg v view_settings
                (ps\<lparr>errors_list := (errors_list ps)(view_id v \<mapsto> es1 @ e # es2)\<rparr>))) =
         ERRORS_IN_VIEWS (fst (show_errors stg v view_settings
                (ps\<lparr>errors_list := (errors_list ps)(view_id v \<mapsto> es1 @ es2)\<rparr>)))"
proof -
  from assms have nq: "skip_line (line_text_of v e)"
    by (simp add: line_text_of_def skip_line_strip)
  have step: "show_errors_step v select ignore is_highlight is_popup mark st e = Inr st"
    by (rule step_noqa[OF nq])
  have coll: "show_errors_collect stg v view_settings (es1 @ e # es2) =
              show_errors_collect stg v view_settings (es1 @ es2)"
    by (simp add: show_errors_collect_def Let_def loop_drop_noqa[OF nq])
  have fin: "format_error v e \<notin> set (errors_to_show st') \<and>
            e \<notin> set (errors_list_filtered st') \<and>
            view_errors st' (fst e - 1) = None"
    if c: "show_errors_collect stg v view_settings es = Inr st'" for st'
  proof -
    let ?s = "or_empty_list (get_default view_settings ''select'' JNone)"
    let ?i = "or_empty_list (get_default view_settings ''ignore'' JNone)"
    let ?h = "get_default stg ''highlight'' (JBool False)"
    let ?p = "get_default stg ''popup'' (JBool True)"
    let ?m = "gutter_mark (get_default stg ''gutter_marks'' (JStr ''''))"
    from c have l: "show_errors_loop v ?s ?i ?h ?p ?m loop_init es = Inr st'"
      by (simp add: show_errors_collect_def Let_def)
    have a: "format_error v e \<notin> set (errors_to_show st')"
    proof
      assume "format_error v e \<in> set (errors_to_show st')"
      with loop_entries[OF l] obtain e' where
        e': "e' \<in> set es" "not_filtered v ?s ?i e'" "format_error v e = format_error v e'"
        by (auto simp: loop_init_def)
      from format_error_line_text[OF e'(3)] nq have "skip_line (line_text_of v e')" by simp
      with e'(2) show False by (simp add: not_filtered_def)
    qed
    have b: "e \<notin> set (errors_list_filtered st')"
      using loop_filtered_subset[OF l] noqa_not_passing[OF nq, of ?s ?i]
      by (auto simp: loop_init_def)
    have "\<forall>e' \<in> set es. fst e' - 1 = fst e - 1 \<longrightarrow> \<not> not_filtered v ?s ?i e'"
    proof (intro ballI impI)
      fix e' assume "e' \<in> set es" "fst e' - 1 = fst e - 1"
      from same_line_text[OF this(2), of v] nq have "skip_line (line_text_of v e')" by simp
      then show "\<not> not_filtered v ?s ?i e'" by (rule noqa_not_passing)
    qed
    from loop_view_errors_None[OF l _ this] have "view_errors st' (fst e - 1) = None"
      by (simp add: loop_init_def)
    with a b show ?thesis by simp
  qed
  have se: "snd (show_errors stg v view_settings
                (ps\<lparr>errors_list := (errors_list ps)(view_id v \<mapsto> es1 @ e # es2)\<rparr>)) =
         snd (show_errors stg v view_settings
                (ps\<lparr>errors_list := (errors_list ps)(view_id v \<mapsto> es1 @ es2)\<rparr>))"
    by (simp add: show_errors_def Let_def coll split: sum.splits option.splits)
  have ev: "ERRORS_IN_VIEWS (fst (show_errors stg v view_settings
                (ps\<lparr>errors_list := (errors_list ps)(view_id v \<mapsto> es1 @ e # es2)\<rparr>))) =
         ERRORS_IN_VIEWS (fst (show_errors stg v view_settings
                (ps\<lparr>errors_list := (errors_list ps)(view_id v \<mapsto> es1 @ es2)\<rparr>)))"
    by (simp add: show_errors_def Let_def coll split: sum.splits option.splits)
  from step fin se ev show ?thesis by blast
qed

theorem noqa_suppression_witness:
  "endswith (lower (strip (substr example_view (full_line example_view
      (text_point example_view
         (fst (2 :: int, 4 :: int, ''E221 multiple spaces before operator'') - 1) 0)))))
     ''# noqa'' \<and>
   show_errors_step example_view (JList []) (JList []) (JBool True) (JBool True) (JStr ''dot'')
     loop_init (2, 4, ''E221 multiple spaces before operator'') = Inr loop_init \<and>
   (\<exists>st'. show_errors_collect Map.empty example_view Map.empty example_errors = Inr st' \<and>
          format_error example_view (2, 4, ''E221 multiple spaces before operator'')
            \<notin> set (errors_to_show st') \<and>
          (2, 4, ''E221 multiple spaces before operator'') \<notin> set (errors_list_filtered st') \<and>
          view_errors st' (fst (2 :: int, 4 :: int, ''E221 multiple spaces before operator'') - 1)
            = None)"
proof -
  have h: "endswith (lower (strip (substr example_view (full_line example_view
      (text_point example_view
         (fst (2 :: int, 4 :: int, ''E221 multiple spaces before operator'') - 1) 0)))))
     ''# noqa''"
    by code_simp
  have "\<not> isl (show_errors_collect Map.empty example_view Map.empty example_errors)"
    by code_simp
  then obtain st' where
    c: "show_errors_collect Map.empty example_view Map.empty example_errors = Inr st'"
    by (cases "show_errors_collect Map.empty example_view Map.empty example_errors") auto
  from noqa_suppression[OF h, where st = loop_init and select = "JList []" and ignore = "JList []"
      and is_highlight = "JBool True" and is_popup = "JBool True" and mark = "JStr ''dot''"
      and stg = Map.empty and view_settings = Map.empty and es = example_errors] c
  show ?thesis using h by blast
qed

text \<open>
  C5 (ignore filtering). When the view's \<open>ignore\<close> setting is a list that holds a prefix
  of the error's code, the loop body adds nothing for the error: it leaves the state as
  it was (or the run stops with an exception, when \<open>select\<close> or \<open>ignore\<close> holds a value
  that is not a string). In a completed run no quick-panel entry carries the error's text,
  the error is not in the filtered list, no line of the dictionary lists its text, and the
  result is that of the run without the error, regions included.
\<close>

theorem ignore_filtering:
  assumes "get_default view_settings ''ignore'' JNone = JList cs"
    and "JStr p \<in> set cs"
    and "split_code (snd (snd e)) = Inr code"
    and "startswith code p"
  shows "(show_errors_step v select (JList cs) is_highlight is_popup mark st e = Inr st \<or>
          (\<exists>err. show_errors_step v select (JList cs) is_highlight is_popup mark st e = Inl err)) \<and>
         (\<forall>st'. show_errors_collect stg v view_settings es = Inr st' \<longrightarrow>
            (\<forall>l. (snd (snd e), l) \<notin> set (errors_to_show st')) \<and>
            e \<notin> set (errors_list_filtered st') \<and>
            (\<forall>k xs. view_errors st' k = Some xs \<longrightarrow> snd (snd e) \<notin> set xs)) \<and>
         (\<forall>st'. show_errors_collect stg v view_settings (es1 @ e # es2) = Inr st' \<longrightarrow>
            show_errors_collect stg v view_settings (es1 @ es2) = Inr st')"
proof -
  let ?s = "or_empty_list (get_default view_settings ''select'' JNone)"
  let ?h = "get_default stg ''highlight'' (JBool False)"
  let ?p = "get_default stg ''popup'' (JBool True)"
  let ?m = "gutter_mark (get_default stg ''gutter_marks'' (JStr ''''))"
  have hit: "code_matches (JList cs) code \<noteq> Inr False"
    by (rule code_matches_list_hit[OF assms(2,4)])
  have nf: "\<not> not_filtered v s (JList cs) e'" if "snd (snd e') = snd (snd e)" for s e'
    using hit assms(3) that by (simp add: not_filtered_def)
  have coll: "show_errors_collect stg v view_settings xs =
              show_errors_loop v ?s (JList cs) ?h ?p ?m loop_init xs" for xs
    by (simp add: collect_loop assms(1) or_empty_list_JList)
  have step: "show_errors_step v select (JList cs) is_highlight is_popup mark st e = Inr st \<or>
          (\<exists>err. show_errors_step v select (JList cs) is_highlight is_popup mark st e = Inl err)"
    by (rule step_filtered[OF nf]) simp
  have fin: "(\<forall>l. (snd (snd e), l) \<notin> set (errors_to_show st')) \<and>
            e \<notin> set (errors_list_filtered st') \<and>
            (\<forall>k xs. view_errors st' k = Some xs \<longrightarrow> snd (snd e) \<notin> set xs)"
    if c: "show_errors_collect stg v view_settings es = Inr st'" for st'
  proof -
    from c have l: "show_errors_loop v ?s (JList cs) ?h ?p ?m loop_init es = Inr st'"
      by (simp add: coll)
    have a: "(snd (snd e), l) \<notin> set (errors_to_show st')" for l
    proof
      assume "(snd (snd e), l) \<in> set (errors_to_show st')"
      with loop_entries[OF l] obtain e' where
        e': "not_filtered v ?s (JList cs) e'" "(snd (snd e), l) = format_error v e'"
        by (auto simp: loop_init_def)
      from e'(2) have "snd (snd e') = snd (snd e)" by (simp add: format_error_def)
      from nf[OF this] e'(1) show False by simp
    qed
    have b: "e \<notin> set (errors_list_filtered st')"
      using loop_filtered_subset[OF l] nf[OF refl, of ?s] by (auto simp: loop_init_def)
    have d: "snd (snd e) \<notin> set xs" if "view_errors st' k = Some xs" for k xs
    proof
      assume "snd (snd e) \<in> set xs"
      with loop_view_errors[OF l that] obtain e' where
        e': "not_filtered v ?s (JList cs) e'" "snd (snd e) = snd (snd e')"
        by (auto simp: loop_init_def)
      from nf[OF e'(2)[symmetric]] e'(1) show False by simp
    qed
    from a b d show ?thesis by blast
  qed
  have nfe: "\<not> not_filtered v ?s (JList cs) e" by (rule nf) simp
  have drop: "show_errors_collect stg v view_settings (es1 @ es2) = Inr st'"
    if "show_errors_collect stg v view_settings (es1 @ e # es2) = Inr st'" for st'
  proof -
    from that have "show_errors_loop v ?s (JList cs) ?h ?p ?m loop_init (es1 @ e # es2) = Inr st'"
      by (simp only: coll)
    from loop_drop_filtered[OF nfe this] show ?thesis by (simp only: coll)
  qed
  show ?thesis
  proof (intro conjI allI impI)
    show "show_errors_step v select (JList cs) is_highlight is_popup mark st e = Inr st \<or>
          (\<exists>err. show_errors_step v select (JList cs) is_highlight is_popup mark st e = Inl err)"
      by (rule step)
  qed (use fin drop in blast)+
qed

theorem ignore_filtering_witness:
  "get_default [''ignore'' \<mapsto> JList [JStr ''W2'', JStr ''E4'']] ''ignore'' JNone =
     JList [JStr ''W2'', JStr ''E4''] \<and>
   JStr ''E4'' \<in> set [JStr ''W2'', JStr ''E4''] \<and>
   split_code (snd (snd (1 :: int, 0 :: int, ''E401 multiple imports on one line''))) = Inr ''E401'' \<and>
   startswith ''E401'' ''E4'' \<and>
   (\<exists>st'. show_errors_collect Map.empty example_view
            [''ignore'' \<mapsto> JList [JStr ''W2'', JStr ''E4'']] example_errors = Inr st' \<and>
          (\<forall>l. (''E401 multiple imports on one line'', l) \<notin> set (errors_to_show st')) \<and>
          (1, 0, ''E401 multiple imports on one line'') \<notin> set (errors_list_filtered st'))"
proof -
  have h1: "get_default [''ignore'' \<mapsto> JList [JStr ''W2'', JStr ''E4'']] ''ignore'' JNone =
     JList [JStr ''W2'', JStr ''E4'']" by (simp add: get_default_def)
  have h2: "JStr ''E4'' \<in> set [JStr ''W2'', JStr ''E4'']" by simp
  have h3: "split_code (snd (snd (1 :: int, 0 :: int, ''E401 multiple imports on one line''))) = Inr ''E401''"
    by code_simp
  have h4: "startswith ''E401'' ''E4''" by code_simp
  have "\<not> isl (show_errors_collect Map.empty example_view
            [''ignore'' \<mapsto> JList [JStr ''W2'', JStr ''E4'']] example_errors)"
    by code_simp
  then obtain st' where c: "show_errors_collect Map.empty example_view
            [''ignore'' \<mapsto> JList [JStr ''W2'', JStr ''E4'']] example_errors = Inr st'"
    by (cases "show_errors_collect Map.empty example_view
            [''ignore'' \<mapsto> JList [JStr ''W2'', JStr ''E4'']] example_errors") auto
  from ignore_filtering[OF h1 h2 h3 h4, where stg = Map.empty and v = example_view
      and es = example_errors] c
  show ?thesis using h1 h2 h3 h4 by auto
qed

text \<open>
  C3 (deduplication). The formatted pair \<^verbatim>\<open>[error_text, 'line: text']\<close> is built for the
  errors that pass the noqa, select and ignore guards. In a completed run the displayed
  list has no duplicates, every such error has exactly one entry equal to its pair,
  however many raw errors share that pair, and the list handed to the quick panel is
  this list. Two raw errors with the same text on the same line have the same pair, so
  at most one entry between them.
\<close>

theorem deduplication:
  assumes "show_errors_collect stg v view_settings es = Inr st'"
  shows "distinct (errors_to_show st') \<and>
         (\<forall>e \<in> set es.
            not_filtered v (or_empty_list (get_default view_settings ''select'' JNone))
              (or_empty_list (get_default view_settings ''ignore'' JNone)) e \<longrightarrow>
            count_list (errors_to_show st') (format_error v e) = 1) \<and>
         (\<forall>e1 \<in> set es. \<forall>e2 \<in> set es.
            fst e1 = fst e2 \<and> snd (snd e1) = snd (snd e2) \<longrightarrow>
            format_error v e1 = format_error v e2 \<and>
            count_list (errors_to_show st') (format_error v e1) \<le> 1) \<and>
         (\<forall>ps n ents.
            Show_quick_panel n ents \<in> set (fst (snd (show_errors stg v view_settings
                (ps\<lparr>errors_list := (errors_list ps)(view_id v \<mapsto> es)\<rparr>)))) \<longrightarrow>
            ents = errors_to_show st' \<and> distinct ents)"
proof -
  let ?s = "or_empty_list (get_default view_settings ''select'' JNone)"
  let ?i = "or_empty_list (get_default view_settings ''ignore'' JNone)"
  let ?h = "get_default stg ''highlight'' (JBool False)"
  let ?p = "get_default stg ''popup'' (JBool True)"
  let ?m = "gutter_mark (get_default stg ''gutter_marks'' (JStr ''''))"
  from assms have l: "show_errors_loop v ?s ?i ?h ?p ?m loop_init es = Inr st'"
    by (simp only: collect_loop)
  have d: "distinct (errors_to_show st')"
    by (rule loop_distinct[OF l]) (simp add: loop_init_def)
  have c: "count_list (errors_to_show st') (format_error v e) = 1"
    if "e \<in> set es" "not_filtered v ?s ?i e" for e
  proof -
    from loop_entries[OF l] that have "format_error v e \<in> set (errors_to_show st')" by blast
    with d show ?thesis by (rule distinct_count_list_one)
  qed
  have q: "format_error v e1 = format_error v e2 \<and>
            count_list (errors_to_show st') (format_error v e1) \<le> 1"
    if "fst e1 = fst e2 \<and> snd (snd e1) = snd (snd e2)" for e1 e2
  proof -
    from that have "format_error v e1 = format_error v e2"
      by (simp add: format_error_def line_text_of_def)
    moreover have "count_list (errors_to_show st') x \<le> 1" for x
      using d distinct_count_list_one[of "errors_to_show st'" x]
      by (cases "x \<in> set (errors_to_show st')") simp_all
    ultimately show ?thesis by simp
  qed
  have p: "ents = errors_to_show st' \<and> distinct ents"
    if "Show_quick_panel n ents \<in> set (fst (snd (show_errors stg v view_settings
                (ps\<lparr>errors_list := (errors_list ps)(view_id v \<mapsto> es)\<rparr>))))" for ps n ents
  proof -
    from show_errors_panel[OF that] assms have "ents = errors_to_show st'" by simp
    with d show ?thesis by simp
  qed
  show ?thesis
  proof (intro conjI ballI allI impI)
    show "distinct (errors_to_show st')" by (rule d)
  qed (use c p q in blast)+
qed

theorem deduplication_witness:
  "\<exists>st'. show_errors_collect Map.empty example_view Map.empty example_errors = Inr st' \<and>
         (3, 5, ''W291 trailing whitespace'') \<in> set example_errors \<and>
         (3, 0, ''W291 trailing whitespace'') \<in> set example_errors \<and>
         format_error example_view (3, 5, ''W291 trailing whitespace'') =
           format_error example_view (3, 0, ''W291 trailing whitespace'') \<and>
         not_filtered example_view (or_empty_list (get_default Map.empty ''select'' JNone))
           (or_empty_list (get_default Map.empty ''ignore'' JNone))
           (3, 5, ''W291 trailing whitespace'') \<and>
         distinct (errors_to_show st') \<and>
         count_list (errors_to_show st')
           (format_error example_view (3, 5, ''W291 trailing whitespace'')) = 1"
proof -
  have "\<not> isl (show_errors_collect Map.empty example_view Map.empty example_errors)"
    by code_simp
  then obtain st' where
    c: "show_errors_collect Map.empty example_view Map.empty example_errors = Inr st'"
    by (cases "show_errors_collect Map.empty example_view Map.empty example_errors") auto
  have m1: "(3, 5, ''W291 trailing whitespace'') \<in> set example_errors"
    by (simp add: example_errors_def)
  have m2: "(3, 0, ''W291 trailing whitespace'') \<in> set example_errors"
    by (simp add: example_errors_def)
  have f: "format_error example_view (3, 5, ''W291 trailing whitespace'') =
           format_error example_view (3, 0, ''W291 trailing whitespace'')"
    by (simp add: format_error_def line_text_of_def)
  have nf: "not_filtered example_view (or_empty_list (get_default Map.empty ''select'' JNone))
           (or_empty_list (get_default Map.empty ''ignore'' JNone))
           (3, 5, ''W291 trailing whitespace'')"
    by code_simp
  from deduplication[OF c] m1 nf
  have "distinct (errors_to_show st') \<and>
        count_list (errors_to_show st')
           (format_error example_view (3, 5, ''W291 trailing whitespace'')) = 1"
    by blast
  with c m1 m2 f nf show ?thesis by blast
qed

text \<open>
  C1 (select filtering). The comment over the test reads "check if user has a setting
  for select only errors to show", and the test skips the errors whose code does start
  with a selected prefix. With \<^verbatim>\<open>select = ['E']\<close>, the error E401 on line 1 is
  dropped and the error W291 on line 3 is displayed.
\<close>

theorem select_filtering_inverted:
  "\<exists>st'. show_errors_collect Map.empty example_view [''select'' \<mapsto> JList [JStr ''E'']]
           [(1, 0, ''E401 multiple imports on one line''),
            (3, 5, ''W291 trailing whitespace'')] = Inr st' \<and>
         errors_to_show st' = [(''W291 trailing whitespace'', ''3: y = 2'')] \<and>
         errors_list_filtered st' = [(3, 5, ''W291 trailing whitespace'')] \<and>
         view_errors st' 0 = None \<and>
         view_errors st' 2 = Some [''W291 trailing whitespace'']"
proof -
  have "case show_errors_collect Map.empty example_view [''select'' \<mapsto> JList [JStr ''E'']]
           [(1, 0, ''E401 multiple imports on one line''),
            (3, 5, ''W291 trailing whitespace'')] of
          Inl err \<Rightarrow> False
        | Inr st' \<Rightarrow>
            errors_to_show st' = [(''W291 trailing whitespace'', ''3: y = 2'')] \<and>
            errors_list_filtered st' = [(3, 5, ''W291 trailing whitespace'')] \<and>
            view_errors st' 0 = None \<and>
            view_errors st' 2 = Some [''W291 trailing whitespace'']"
    by code_simp
  then show ?thesis by (simp split: sum.splits)
qed

text \<open>
  C9 (highlight region). With \<open>tp\<close> the start of the error's line, \<open>lt\<close> the line
  without its trailing carriage returns and line feeds, and \<open>n\<close> the number of
  whitespace characters the line starts with (so that position \<open>n\<close> holds the first
  character that is not whitespace, when the line has one), the region of an error runs
  from \<open>tp + n\<close> to \<open>tp + length lt\<close>, and from \<open>tp + column\<close> when the code is E501.
  The loop body appends this region for every error it displays, when highlighting or a
  gutter mark is on; with the quick panel on, the regions of a completed run are those
  of the displayed errors in order; and \<open>add_regions\<close> receives one region for each
  displayed entry.
\<close>

theorem highlight_region:
  assumes "split_code (snd (snd e)) = Inr code"
    and "tp = text_point v (fst e - 1) 0"
    and "lt = rstrip_chars [CHR 0x0D, CHR 0x0A] (substr v (full_line v tp))"
    and "n = length (takeWhile isspace lt)"
  shows "region_of v e =
           (if code = ''E501'' then tp + fst (snd e) else tp + int n, tp + int (length lt)) \<and>
         (\<exists>nl. substr v (full_line v tp) = lt @ nl \<and> set nl \<subseteq> {CHR 0x0D, CHR 0x0A}) \<and>
         (\<forall>j < n. isspace (lt ! j)) \<and> (n < length lt \<longrightarrow> \<not> isspace (lt ! n)) \<and>
         (\<forall>st st1. show_errors_step v select ignore is_highlight is_popup mark st e = Inr st1 \<and>
                   errors_to_show st1 \<noteq> errors_to_show st \<and>
                   (truthy is_highlight \<or> truthy mark) \<longrightarrow>
                   regions st1 = regions st @ [region_of v e]) \<and>
         (\<forall>es st'. show_errors_collect stg v view_settings es = Inr st' \<and>
                   truthy (get_default stg ''popup'' (JBool True)) \<and>
                   (truthy (get_default stg ''highlight'' (JBool False)) \<or>
                    truthy (gutter_mark (get_default stg ''gutter_marks'' (JStr '''')))) \<longrightarrow>
                   errors_to_show st' = map (format_error v) (errors_list_filtered st') \<and>
                   regions st' = map (region_of v) (errors_list_filtered st')) \<and>
         (\<forall>ps k regs sc mk fl.
            Add_regions (view_id v) k regs sc mk fl
              \<in> set (fst (snd (show_errors stg v view_settings ps))) \<longrightarrow>
            (\<exists>st'. show_errors_collect stg v view_settings
                     (case errors_list ps (view_id v) of None \<Rightarrow> [] | Some es \<Rightarrow> es) = Inr st' \<and>
                   regs = regions st' \<and> length regs = length (errors_to_show st')))"
proof -
  have A: "region_of v e =
           (if code = ''E501'' then tp + fst (snd e) else tp + int n, tp + int (length lt))"
    using region_of_explicit[OF assms(1), of v] assms(2,3,4) by (simp add: Let_def)
  have B: "\<exists>nl. substr v (full_line v tp) = lt @ nl \<and> set nl \<subseteq> {CHR 0x0D, CHR 0x0A}"
    using rstrip_chars_split[of "substr v (full_line v tp)" "[CHR 0x0D, CHR 0x0A]"] assms(3)
    by simp
  have C1: "\<forall>j < n. isspace (lt ! j)"
  proof (intro allI impI)
    fix j assume "j < n"
    then have j: "j < length (takeWhile isspace lt)" by (simp add: assms(4))
    then have "takeWhile isspace lt ! j \<in> set (takeWhile isspace lt)" by simp
    then have "isspace (takeWhile isspace lt ! j)" by (rule set_takeWhileD[THEN conjunct2])
    with j show "isspace (lt ! j)" by (simp add: takeWhile_nth)
  qed
  have C2: "n < length lt \<longrightarrow> \<not> isspace (lt ! n)"
    using nth_length_takeWhile[of isspace lt] by (simp add: assms(4))
  have D: "regions st1 = regions st @ [region_of v e]"
    if "show_errors_step v select ignore is_highlight is_popup mark st e = Inr st1"
       "errors_to_show st1 \<noteq> errors_to_show st" "truthy is_highlight \<or> truthy mark"
    for st st1
    using step_displayed[OF that(1,2)] that(3) by (auto simp: add_error_fields region_of_def)
  have E: "errors_to_show st' = map (format_error v) (errors_list_filtered st') \<and>
           regions st' = map (region_of v) (errors_list_filtered st')"
    if c: "show_errors_collect stg v view_settings es = Inr st'"
       and p: "truthy (get_default stg ''popup'' (JBool True))"
       and h: "truthy (get_default stg ''highlight'' (JBool False)) \<or>
               truthy (gutter_mark (get_default stg ''gutter_marks'' (JStr '''')))"
    for es st'
  proof -
    from c have l: "show_errors_loop v (or_empty_list (get_default view_settings ''select'' JNone))
       (or_empty_list (get_default view_settings ''ignore'' JNone))
       (get_default stg ''highlight'' (JBool False))
       (get_default stg ''popup'' (JBool True))
       (gutter_mark (get_default stg ''gutter_marks'' (JStr ''''))) loop_init es = Inr st'"
      by (simp only: collect_loop)
    have "errors_to_show st' = map (format_error v) (errors_list_filtered st')"
      by (rule loop_popup_entries[OF l p]) (simp add: loop_init_def)
    moreover have "regions st' = map (region_of v) (errors_list_filtered st')"
      by (rule loop_popup_regions[OF l p h]) (simp add: loop_init_def)
    ultimately show ?thesis by simp
  qed
  have F: "\<exists>st'. show_errors_collect stg v view_settings
                     (case errors_list ps (view_id v) of None \<Rightarrow> [] | Some es \<Rightarrow> es) = Inr st' \<and>
                   regs = regions st' \<and> length regs = length (errors_to_show st')"
    if a: "Add_regions (view_id v) k regs sc mk fl
              \<in> set (fst (snd (show_errors stg v view_settings ps)))"
    for ps k regs sc mk fl
  proof -
    from show_errors_add_regions[OF a] obtain st' where
      c: "show_errors_collect stg v view_settings
            (case errors_list ps (view_id v) of None \<Rightarrow> [] | Some es \<Rightarrow> es) = Inr st'" and
      r: "regs = regions st'" and
      m: "mk = gutter_mark (get_default stg ''gutter_marks'' (JStr ''''))" and
      h: "truthy (get_default stg ''highlight'' (JBool False)) \<or> truthy mk" by blast
    from c have l: "show_errors_loop v (or_empty_list (get_default view_settings ''select'' JNone))
       (or_empty_list (get_default view_settings ''ignore'' JNone))
       (get_default stg ''highlight'' (JBool False))
       (get_default stg ''popup'' (JBool True))
       (gutter_mark (get_default stg ''gutter_marks'' (JStr ''''))) loop_init
       (case errors_list ps (view_id v) of None \<Rightarrow> [] | Some es \<Rightarrow> es) = Inr st'"
      by (simp only: collect_loop)
    have "length (regions st') = length (errors_to_show st')"
      by (rule loop_regions_length[OF l]) (use h m in \<open>simp_all add: loop_init_def\<close>)
    with c r show ?thesis by blast
  qed
  show ?thesis
  proof (intro conjI)
    show "\<forall>st st1. show_errors_step v select ignore is_highlight is_popup mark st e = Inr st1 \<and>
                   errors_to_show st1 \<noteq> errors_to_show st \<and>
                   (truthy is_highlight \<or> truthy mark) \<longrightarrow>
                   regions st1 = regions st @ [region_of v e]"
      using D by blast
    show "\<forall>es st'. show_errors_collect stg v view_settings es = Inr st' \<and>
                   truthy (get_default stg ''popup'' (JBool True)) \<and>
                   (truthy (get_default stg ''highlight'' (JBool False)) \<or>
                    truthy (gutter_mark (get_default stg ''gutter_marks'' (JStr '''')))) \<longrightarrow>
                   errors_to_show st' = map (format_error v) (errors_list_filtered st') \<and>
                   regions st' = map (region_of v) (errors_list_filtered st')"
      using E by blast
    show "\<forall>ps k regs sc mk fl.
            Add_regions (view_id v) k regs sc mk fl
              \<in> set (fst (snd (show_errors stg v view_settings ps))) \<longrightarrow>
            (\<exists>st'. show_errors_collect stg v view_settings
                     (case errors_list ps (view_id v) of None \<Rightarrow> [] | Some es \<Rightarrow> es) = Inr st' \<and>
                   regs = regions st' \<and> length regs = length (errors_to_show st'))"
      using F by blast
  qed (rule A B C1 C2)+
qed

theorem highlight_region_witness:
  "split_code (snd (snd (3 :: int, 7 :: int, ''E501 line too long''))) = Inr ''E501'' \<and>
   split_code (snd (snd (3 :: int, 5 :: int, ''W291 trailing whitespace''))) = Inr ''W291'' \<and>
   27 = text_point example_view (fst (3 :: int, 7 :: int, ''E501 line too long'') - 1) 0 \<and>
   ''    y = 2'' = rstrip_chars [CHR 0x0D, CHR 0x0A] (substr example_view (full_line example_view 27)) \<and>
   4 = length (takeWhile isspace ''    y = 2'') \<and>
   region_of example_view (3, 7, ''E501 line too long'') = (34, 36) \<and>
   region_of example_view (3, 5, ''W291 trailing whitespace'') = (31, 36) \<and>
   (\<exists>st1. show_errors_step example_view (JList []) (JList []) (JBool True) (JBool True)
            (JStr '''') loop_init (3, 7, ''E501 line too long'') = Inr st1 \<and>
          errors_to_show st1 \<noteq> errors_to_show loop_init \<and>
          regions st1 = regions loop_init @ [(34, 36)])"
proof -
  have h1: "split_code (snd (snd (3 :: int, 7 :: int, ''E501 line too long''))) = Inr ''E501''"
    by code_simp
  have h1': "split_code (snd (snd (3 :: int, 5 :: int, ''W291 trailing whitespace''))) = Inr ''W291''"
    by code_simp
  have h2: "27 = text_point example_view (fst (3 :: int, 7 :: int, ''E501 line too long'') - 1) 0"
    by code_simp
  have h2': "27 = text_point example_view (fst (3 :: int, 5 :: int, ''W291 trailing whitespace'') - 1) 0"
    by code_simp
  have h3: "''    y = 2'' =
      rstrip_chars [CHR 0x0D, CHR 0x0A] (substr example_view (full_line example_view 27))"
    by code_simp
  have h4: "4 = length (takeWhile isspace ''    y = 2'')"
    by code_simp
  have s: "case show_errors_step example_view (JList []) (JList []) (JBool True) (JBool True)
            (JStr '''') loop_init (3, 7, ''E501 line too long'') of
             Inl err \<Rightarrow> False
           | Inr st1 \<Rightarrow> errors_to_show st1 \<noteq> errors_to_show loop_init"
    by code_simp
  then obtain st1 where
    st1: "show_errors_step example_view (JList []) (JList []) (JBool True) (JBool True)
            (JStr '''') loop_init (3, 7, ''E501 line too long'') = Inr st1"
         "errors_to_show st1 \<noteq> errors_to_show loop_init"
    by (auto split: sum.splits)
  note a = highlight_region[OF h1 h2 h3 h4, where select = "JList []" and ignore = "JList []"
      and is_highlight = "JBool True" and is_popup = "JBool True" and mark = "JStr ''''"]
  note b = highlight_region[OF h1' h2' h3 h4]
  from a have r1: "region_of example_view (3, 7, ''E501 line too long'') = (34, 36)" by simp
  from b have r2: "region_of example_view (3, 5, ''W291 trailing whitespace'') = (31, 36)" by simp
  from a st1 r1 have "regions st1 = regions loop_init @ [(34, 36)]" by auto
  with h1 h1' h2 h3 h4 r1 r2 st1 show ?thesis by blast
qed

text \<open>
  C10 (gutter mark). The value \<open>show_errors\<close> computes from the \<open>gutter_marks\<close> setting
  is one of the five strings; a setting that is none of them, a value that is not a
  string included, becomes the empty string, and one of them is kept. Every
  \<open>add_regions\<close> call of \<open>show_errors\<close>, and so of \<open>run\<close>, passes this value as the icon.
\<close>

theorem gutter_mark_sanitized:
  "gutter_mark x \<in> set [JStr '''', JStr ''dot'', JStr ''circle'', JStr ''bookmark'', JStr ''cross''] \<and>
   (x \<notin> set [JStr '''', JStr ''dot'', JStr ''circle'', JStr ''bookmark'', JStr ''cross'']
      \<longrightarrow> gutter_mark x = JStr '''') \<and>
   (x \<in> set [JStr '''', JStr ''dot'', JStr ''circle'', JStr ''bookmark'', JStr ''cross'']
      \<longrightarrow> gutter_mark x = x) \<and>
   (\<forall>n k regs sc mk fl.
      Add_regions n k regs sc mk fl \<in> set (fst (snd (show_errors stg v view_settings ps))) \<longrightarrow>
      mk = gutter_mark (get_default stg ''gutter_marks'' (JStr '''')) \<and>
      mk \<in> set [JStr '''', JStr ''dot'', JStr ''circle'', JStr ''bookmark'', JStr ''cross'']) \<and>
   (\<forall>n k regs sc mk fl.
      Add_regions n k regs sc mk fl \<in> set (fst (snd (run w v ps))) \<longrightarrow>
      mk = gutter_mark (get_default (settings w) ''gutter_marks'' (JStr '''')) \<and>
      mk \<in> set [JStr '''', JStr ''dot'', JStr ''circle'', JStr ''bookmark'', JStr ''cross''])"
proof -
  have A: "mk = gutter_mark (get_default stg' ''gutter_marks'' (JStr '''')) \<and>
      mk \<in> set [JStr '''', JStr ''dot'', JStr ''circle'', JStr ''bookmark'', JStr ''cross'']"
    if "Add_regions n k regs sc mk fl \<in> set (fst (snd (show_errors stg' v vs' ps')))"
    for n k regs sc mk fl stg' vs' ps'
    using show_errors_add_regions[OF that] gutter_mark_in by blast
  have B: "mk = gutter_mark (get_default (settings w) ''gutter_marks'' (JStr '''')) \<and>
      mk \<in> set [JStr '''', JStr ''dot'', JStr ''circle'', JStr ''bookmark'', JStr ''cross'']"
    if r: "Add_regions n k regs sc mk fl \<in> set (fst (snd (run w v ps)))"
    for n k regs sc mk fl
  proof -
    from run_add_regions[OF r] obtain vs ps1 where
      "Add_regions n k regs sc mk fl \<in> set (fst (snd (show_errors (settings w) v vs ps1)))"
      by blast
    from A[OF this] show ?thesis .
  qed
  show ?thesis
  proof (intro conjI)
    show "gutter_mark x \<in> set [JStr '''', JStr ''dot'', JStr ''circle'', JStr ''bookmark'', JStr ''cross'']"
      by (rule gutter_mark_in)
    show "x \<notin> set [JStr '''', JStr ''dot'', JStr ''circle'', JStr ''bookmark'', JStr ''cross'']
      \<longrightarrow> gutter_mark x = JStr ''''"
      by (simp add: gutter_mark_def)
    show "x \<in> set [JStr '''', JStr ''dot'', JStr ''circle'', JStr ''bookmark'', JStr ''cross'']
      \<longrightarrow> gutter_mark x = x"
      by (simp add: gutter_mark_def)
  qed (use A B in blast)+
qed

theorem gutter_mark_sanitized_witness:
  "JStr ''star'' \<notin> set [JStr '''', JStr ''dot'', JStr ''circle'', JStr ''bookmark'', JStr ''cross''] \<and>
   gutter_mark (JStr ''star'') = JStr '''' \<and>
   JStr ''dot'' \<in> set [JStr '''', JStr ''dot'', JStr ''circle'', JStr ''bookmark'', JStr ''cross''] \<and>
   gutter_mark (JStr ''dot'') = JStr ''dot'' \<and>
   get_default (settings example_world) ''gutter_marks'' (JStr '''') = JStr ''star'' \<and>
   (\<exists>n k regs sc mk fl.
      Add_regions n k regs sc mk fl
        \<in> set (fst (snd (run example_world example_view example_state))) \<and>
      mk = JStr '''')"
proof -
  have h1: "JStr ''star'' \<notin> set [JStr '''', JStr ''dot'', JStr ''circle'', JStr ''bookmark'',
                                 JStr ''cross'']"
    by simp
  have h2: "JStr ''dot'' \<in> set [JStr '''', JStr ''dot'', JStr ''circle'', JStr ''bookmark'',
                               JStr ''cross'']"
    by simp
  have g: "get_default (settings example_world) ''gutter_marks'' (JStr '''') = JStr ''star''"
    by code_simp
  have "list_ex (\<lambda>a. case a of Add_regions n k regs sc mk fl \<Rightarrow> True | _ \<Rightarrow> False)
          (fst (snd (run example_world example_view example_state)))"
    by code_simp
  then obtain a where
    a: "a \<in> set (fst (snd (run example_world example_view example_state)))"
       "case a of Add_regions n k regs sc mk fl \<Rightarrow> True | _ \<Rightarrow> False"
    by (auto simp: list_ex_iff)
  from a(2) obtain n k regs sc mk fl where "a = Add_regions n k regs sc mk fl"
    by (cases a) simp_all
  with a(1) have
    m: "Add_regions n k regs sc mk fl
          \<in> set (fst (snd (run example_world example_view example_state)))"
    by simp
  note t1 = gutter_mark_sanitized[of "JStr ''star''" _ example_view _ example_state example_world]
  note t2 = gutter_mark_sanitized[of "JStr ''dot''" _ example_view _ example_state example_world]
  from t1 h1 have s: "gutter_mark (JStr ''star'') = JStr ''''" by blast
  from t2 h2 have d: "gutter_mark (JStr ''dot'') = JStr ''dot''" by blast
  from t1 m have "mk = gutter_mark (get_default (settings example_world) ''gutter_marks'' (JStr ''''))"
    by blast
  with g s have "mk = JStr ''''" by simp
  with h1 h2 g s d m show ?thesis by blast
qed

text \<open>
  C8 (engine dispatch). \<open>i\<close> is the \<open>python_interpreter\<close> setting as \<open>run\<close> reads it
  (\<open>'auto'\<close> when the key is absent) and \<open>i'\<close> is \<open>i\<close> with \<open>'auto'\<close> resolved to
  \<open>'pythonw'\<close> on Windows and \<open>'python'\<close> elsewhere. When \<open>i\<close> is falsy or
  \<open>'internal'\<close> the block makes the single call \<open>lint(filename, view_settings)\<close>.
  Otherwise it never calls \<open>lint\<close>; when it returns, it has made exactly one engine
  call, \<open>lint_external\<close> with interpreter \<open>i'\<close> and one of the two candidate linter
  paths, whose result it returns; when a path test raises, it has called no engine.
  The engine calls of a \<open>run\<close> that gets past its early returns are those of this block.
\<close>

theorem engine_dispatch:
  assumes "i = get_default vs ''python_interpreter'' (JStr ''auto'')"
    and "i' = (if i = JStr ''auto''
               then (if os_name w = ''nt'' then JStr ''pythonw'' else JStr ''python'') else i)"
  shows "((\<not> truthy i \<or> i = JStr ''internal'') \<longrightarrow>
            run_lint w f vs = ([Call_lint f vs], Inr (lint w f vs))) \<and>
         (truthy i \<and> i \<noteq> JStr ''internal'' \<longrightarrow>
            (\<forall>f' s. Call_lint f' s \<notin> set (fst (run_lint w f vs))) \<and>
            (\<forall>errs. snd (run_lint w f vs) = Inr errs \<longrightarrow>
               (\<exists>linter.
                  linter \<in> {path_join w [FLAKE_DIR w, ''lint.py''],
                             path_join w [packages_path w, ''Python Flake8 Lint'', ''lint.py'']} \<and>
                  filter is_lint_call (fst (run_lint w f vs)) =
                    [Call_lint_external f vs i' linter] \<and>
                  errs = lint_external w f vs i' linter)) \<and>
            (\<forall>err. snd (run_lint w f vs) = Inl err \<longrightarrow>
               filter is_lint_call (fst (run_lint w f vs)) = [])) \<and>
         (\<forall>v ps fn.
            file_name v = Some fn \<and> fn \<noteq> [] \<and> match_selector v 0 ''source.python'' \<and>
            \<not> skip_file w (abspath w fn) \<and> get_view_settings w v = Inr vs \<and>
            snd (run_ignore_files w (abspath w fn) vs) = Inr False \<and> f = abspath w fn \<longrightarrow>
            filter is_lint_call (fst (snd (run w v ps))) =
              filter is_lint_call (fst (run_lint w f vs)))"
proof -
  have A: "run_lint w f vs = ([Call_lint f vs], Inr (lint w f vs))"
    if "\<not> truthy i \<or> i = JStr ''internal''"
    by (rule run_lint_internal[OF assms(1) that])
  have B: "(\<forall>f' s. Call_lint f' s \<notin> set (fst (run_lint w f vs))) \<and>
            (\<forall>errs. snd (run_lint w f vs) = Inr errs \<longrightarrow>
               (\<exists>linter.
                  linter \<in> {path_join w [FLAKE_DIR w, ''lint.py''],
                             path_join w [packages_path w, ''Python Flake8 Lint'', ''lint.py'']} \<and>
                  filter is_lint_call (fst (run_lint w f vs)) =
                    [Call_lint_external f vs i' linter] \<and>
                  errs = lint_external w f vs i' linter)) \<and>
            (\<forall>err. snd (run_lint w f vs) = Inl err \<longrightarrow>
               filter is_lint_call (fst (run_lint w f vs)) = [])"
    if ext: "truthy i \<and> i \<noteq> JStr ''internal''"
  proof -
    from ext have e: "truthy i" "i \<noteq> JStr ''internal''" by simp_all
    from run_lint_shape[OF assms(1) e assms(2), of f]
    consider (raise) err msgs where "run_lint w f vs = (map Error_message msgs, Inl err)"
      | (call) linter msgs where
          "linter \<in> {path_join w [FLAKE_DIR w, ''lint.py''],
                      path_join w [packages_path w, ''Python Flake8 Lint'', ''lint.py'']}"
          "run_lint w f vs = (map Error_message msgs @ [Call_lint_external f vs i' linter],
                              Inr (lint_external w f vs i' linter))"
      by blast
    then show ?thesis
    proof cases
      case raise
      then show ?thesis by (auto simp: filter_lint_call_messages)
    next
      case call
      from call(2) have
        "filter is_lint_call (fst (run_lint w f vs)) = [Call_lint_external f vs i' linter]"
        "snd (run_lint w f vs) = Inr (lint_external w f vs i' linter)"
        "\<forall>f' s. Call_lint f' s \<notin> set (fst (run_lint w f vs))"
        by (auto simp: filter_lint_call_messages)
      with call(1) show ?thesis by auto
    qed
  qed
  have C: "filter is_lint_call (fst (snd (run w v ps))) =
              filter is_lint_call (fst (run_lint w f vs))"
    if "file_name v = Some fn \<and> fn \<noteq> [] \<and> match_selector v 0 ''source.python'' \<and>
            \<not> skip_file w (abspath w fn) \<and> get_view_settings w v = Inr vs \<and>
            snd (run_ignore_files w (abspath w fn) vs) = Inr False \<and> f = abspath w fn"
    for v ps fn
  proof -
    from that have h: "file_name v = Some fn" "fn \<noteq> []" "match_selector v 0 ''source.python''"
      "\<not> skip_file w (abspath w fn)" "get_view_settings w v = Inr vs"
      "snd (run_ignore_files w (abspath w fn) vs) = Inr False" and f: "f = abspath w fn"
      by simp_all
    from run_reaches_lint[OF h, of ps] obtain pre post where
      "fst (snd (run w v ps)) = pre @ fst (run_lint w (abspath w fn) vs) @ post"
      "filter is_lint_call pre = []" "filter is_lint_call post = []" by blast
    then show ?thesis by (simp add: f)
  qed
  show ?thesis
  proof (intro conjI impI allI)
    show "run_lint w f vs = ([Call_lint f vs], Inr (lint w f vs))"
      if "\<not> truthy i \<or> i = JStr ''internal''" using A[OF that] .
  qed (use B C in blast)+
qed

theorem engine_dispatch_witness:
  "JStr ''auto'' = get_default Map.empty ''python_interpreter'' (JStr ''auto'') \<and>
   JStr ''python'' = (if JStr ''auto'' = JStr ''auto''
        then (if os_name example_world = ''nt'' then JStr ''pythonw'' else JStr ''python'')
        else JStr ''auto'') \<and>
   truthy (JStr ''auto'') \<and> JStr ''auto'' \<noteq> JStr ''internal'' \<and>
   snd (run_lint example_world ''/p/a.py'' Map.empty) = Inr example_errors \<and>
   (\<exists>linter. filter is_lint_call (fst (run_lint example_world ''/p/a.py'' Map.empty)) =
       [Call_lint_external ''/p/a.py'' Map.empty (JStr ''python'') linter]) \<and>
   JStr ''internal'' =
     get_default [''python_interpreter'' \<mapsto> JStr ''internal''] ''python_interpreter'' (JStr ''auto'') \<and>
   run_lint example_world ''/p/a.py'' [''python_interpreter'' \<mapsto> JStr ''internal''] =
     ([Call_lint ''/p/a.py'' [''python_interpreter'' \<mapsto> JStr ''internal'']],
      Inr (lint example_world ''/p/a.py'' [''python_interpreter'' \<mapsto> JStr ''internal'']))"
proof -
  have h1: "JStr ''auto'' = get_default Map.empty ''python_interpreter'' (JStr ''auto'')"
    by (simp add: get_default_def)
  have h2: "JStr ''python'' = (if JStr ''auto'' = JStr ''auto''
        then (if os_name example_world = ''nt'' then JStr ''pythonw'' else JStr ''python'')
        else JStr ''auto'')"
    by (simp add: example_world_def)
  have h3: "truthy (JStr ''auto'') \<and> JStr ''auto'' \<noteq> JStr ''internal''" by simp
  have r: "snd (run_lint example_world ''/p/a.py'' Map.empty) = Inr example_errors"
    by code_simp
  have k1: "JStr ''internal'' =
     get_default [''python_interpreter'' \<mapsto> JStr ''internal''] ''python_interpreter'' (JStr ''auto'')"
    by (simp add: get_default_def)
  have k2: "JStr ''internal'' = (if JStr ''internal'' = JStr ''auto''
        then (if os_name example_world = ''nt'' then JStr ''pythonw'' else JStr ''python'')
        else JStr ''internal'')"
    by simp
  note a = engine_dispatch[OF h1 h2, of "''/p/a.py''"]
  note b = engine_dispatch[OF k1 k2, of "''/p/a.py''"]
  from a h3 r have "\<exists>linter. filter is_lint_call (fst (run_lint example_world ''/p/a.py'' Map.empty)) =
       [Call_lint_external ''/p/a.py'' Map.empty (JStr ''python'') linter]"
    by blast
  moreover from b have "run_lint example_world ''/p/a.py'' [''python_interpreter'' \<mapsto> JStr ''internal''] =
     ([Call_lint ''/p/a.py'' [''python_interpreter'' \<mapsto> JStr ''internal'']],
      Inr (lint example_world ''/p/a.py'' [''python_interpreter'' \<mapsto> JStr ''internal'']))"
    by blast
  ultimately show ?thesis using h1 h2 h3 r k1 by blast
qed

text \<open>
  C7 (error dialogs). \<open>run\<close> shows an error dialog when the configured interpreter (a
  truthy setting other than \<open>'internal'\<close> and \<open>'auto'\<close>) does not exist, when
  \<^verbatim>\<open>lint.py\<close> exists at neither candidate path, and when matching the file against
  \<open>ignore_files\<close> raises TypeError or ValueError. The dialogs of the two blocks are calls
  of every \<open>run\<close> that gets past its early returns, and every error dialog of \<open>run\<close>
  begins with \<^verbatim>\<open>Python Flake8 Lint error:\<close>.
\<close>

theorem error_dialogs:
  "(get_default vs ''python_interpreter'' (JStr ''auto'') = i \<and> truthy i \<and>
      i \<noteq> JStr ''internal'' \<and> i \<noteq> JStr ''auto'' \<and> path_exists w i = Inr False \<longrightarrow>
      Error_message (''Python Flake8 Lint error:'' @ [CHR 0x0A] @ ''python interpreter '' @
                     [CHR 0x27] @ str_format w i @ [CHR 0x27] @ '' is not found'')
        \<in> set (fst (run_lint w f vs))) \<and>
   (get_default vs ''python_interpreter'' (JStr ''auto'') = i \<and> truthy i \<and>
      i \<noteq> JStr ''internal'' \<and> (i = JStr ''auto'' \<or> (\<exists>b. path_exists w i = Inr b)) \<and>
      path_exists w (JStr (path_join w [FLAKE_DIR w, ''lint.py''])) = Inr False \<and>
      path_exists w (JStr (path_join w [packages_path w, ''Python Flake8 Lint'', ''lint.py'']))
        = Inr False \<longrightarrow>
      Error_message (''Python Flake8 Lint error:'' @ [CHR 0x0A] @ ''sorry, can'' @ [CHR 0x27] @
                     ''t find correct plugin path'')
        \<in> set (fst (run_lint w f vs))) \<and>
   (truthy (get_default vs ''ignore_files'' JNone) \<and>
      any_filename_match w (set_iter w (ignore_files_paths w f))
        (get_default vs ''ignore_files'' JNone) = Inl err \<and>
      (err = TypeError \<or> err = ValueError) \<longrightarrow>
      run_ignore_files w f vs =
        ([Error_message (''Python Flake8 Lint error:'' @ [CHR 0x0A] @ [CHR 0x27] @
            ''ignore_files'' @ [CHR 0x27] @ '' option is not a list of file masks'')],
         Inr False)) \<and>
   (\<forall>v ps fn.
      file_name v = Some fn \<and> fn \<noteq> [] \<and> match_selector v 0 ''source.python'' \<and>
      \<not> skip_file w (abspath w fn) \<and> get_view_settings w v = Inr vs \<and>
      snd (run_ignore_files w (abspath w fn) vs) = Inr False \<and> f = abspath w fn \<longrightarrow>
      set (fst (run_ignore_files w f vs)) \<union> set (fst (run_lint w f vs))
        \<subseteq> set (fst (snd (run w v ps)))) \<and>
   (\<forall>v ps m. Error_message m \<in> set (fst (snd (run w v ps))) \<longrightarrow>
      prefix ''Python Flake8 Lint error:'' m)"
proof -
  have dp: "dialog_prefix = ''Python Flake8 Lint error:'' @ [CHR 0x0A]"
    by (simp add: dialog_prefix_def)
  have A: "Error_message (''Python Flake8 Lint error:'' @ [CHR 0x0A] @ ''python interpreter '' @
                     [CHR 0x27] @ str_format w i @ [CHR 0x27] @ '' is not found'')
        \<in> set (fst (run_lint w f vs))"
    if "get_default vs ''python_interpreter'' (JStr ''auto'') = i \<and> truthy i \<and>
      i \<noteq> JStr ''internal'' \<and> i \<noteq> JStr ''auto'' \<and> path_exists w i = Inr False"
    using that by (simp add: run_lint_def Let_def dp split: sum.splits)
  have B: "Error_message (''Python Flake8 Lint error:'' @ [CHR 0x0A] @ ''sorry, can'' @ [CHR 0x27] @
                     ''t find correct plugin path'')
        \<in> set (fst (run_lint w f vs))"
    if "get_default vs ''python_interpreter'' (JStr ''auto'') = i \<and> truthy i \<and>
      i \<noteq> JStr ''internal'' \<and> (i = JStr ''auto'' \<or> (\<exists>b. path_exists w i = Inr b)) \<and>
      path_exists w (JStr (path_join w [FLAKE_DIR w, ''lint.py''])) = Inr False \<and>
      path_exists w (JStr (path_join w [packages_path w, ''Python Flake8 Lint'', ''lint.py'']))
        = Inr False"
    using that by (auto simp: run_lint_def Let_def dp split: sum.splits)
  have C: "run_ignore_files w f vs =
        ([Error_message (''Python Flake8 Lint error:'' @ [CHR 0x0A] @ [CHR 0x27] @
            ''ignore_files'' @ [CHR 0x27] @ '' option is not a list of file masks'')],
         Inr False)"
    if "truthy (get_default vs ''ignore_files'' JNone) \<and>
      any_filename_match w (set_iter w (ignore_files_paths w f))
        (get_default vs ''ignore_files'' JNone) = Inl err \<and>
      (err = TypeError \<or> err = ValueError)"
    using that by (auto simp: run_ignore_files_def Let_def dp)
  have D: "set (fst (run_ignore_files w f vs)) \<union> set (fst (run_lint w f vs))
        \<subseteq> set (fst (snd (run w v ps)))"
    if "file_name v = Some fn \<and> fn \<noteq> [] \<and> match_selector v 0 ''source.python'' \<and>
      \<not> skip_file w (abspath w fn) \<and> get_view_settings w v = Inr vs \<and>
      snd (run_ignore_files w (abspath w fn) vs) = Inr False \<and> f = abspath w fn"
    for v ps fn
  proof -
    from that have h: "file_name v = Some fn" "fn \<noteq> []" "match_selector v 0 ''source.python''"
      "\<not> skip_file w (abspath w fn)" "get_view_settings w v = Inr vs"
      "snd (run_ignore_files w (abspath w fn) vs) = Inr False" and f: "f = abspath w fn"
      by simp_all
    from run_reaches_lint[OF h, of ps] obtain pre post where
      "fst (snd (run w v ps)) = pre @ fst (run_lint w (abspath w fn) vs) @ post"
      "set (fst (run_ignore_files w (abspath w fn) vs)) \<subseteq> set pre" by blast
    then show ?thesis by (auto simp: f)
  qed
  have E: "prefix ''Python Flake8 Lint error:'' m"
    if m: "Error_message m \<in> set (fst (snd (run w v ps)))" for v ps m
  proof -
    have s: "Error_message m \<notin> set (fst (snd (show_errors stg v' vs' ps')))" for stg v' vs' ps'
      by (rule show_errors_no_message)
    from run_actions[OF m] s
    consider f' vs' where "Error_message m \<in> set (fst (run_ignore_files w f' vs'))"
      | f' vs' where "Error_message m \<in> set (fst (run_lint w f' vs'))"
      by auto
    then have "prefix dialog_prefix m"
    proof cases
      case 1
      from run_ignore_files_actions[OF 1] show ?thesis by auto
    next
      case 2
      from run_lint_actions[OF 2] show ?thesis by auto
    qed
    then show ?thesis by (auto simp: dp prefix_def)
  qed
  show ?thesis
  proof (intro conjI allI impI)
    show "prefix ''Python Flake8 Lint error:'' m"
      if "Error_message m \<in> set (fst (snd (run w v ps)))" for v ps m
      using E[OF that] .
  qed (use A B C D in blast)+
qed

theorem error_dialogs_witness:
  "get_default example_view_settings ''python_interpreter'' (JStr ''auto'') = JStr ''/no/python'' \<and>
   truthy (JStr ''/no/python'') \<and> JStr ''/no/python'' \<noteq> JStr ''internal'' \<and>
   JStr ''/no/python'' \<noteq> JStr ''auto'' \<and>
   path_exists example_world (JStr ''/no/python'') = Inr False \<and>
   path_exists example_world
     (JStr (path_join example_world [FLAKE_DIR example_world, ''lint.py''])) = Inr False \<and>
   path_exists example_world
     (JStr (path_join example_world
        [packages_path example_world, ''Python Flake8 Lint'', ''lint.py''])) = Inr False \<and>
   truthy (get_default example_view_settings ''ignore_files'' JNone) \<and>
   any_filename_match example_world
     (set_iter example_world (ignore_files_paths example_world ''/p/a.py''))
     (get_default example_view_settings ''ignore_files'' JNone) = Inl TypeError \<and>
   Error_message (''Python Flake8 Lint error:'' @ [CHR 0x0A] @ ''python interpreter '' @
                  [CHR 0x27] @ str_format example_world (JStr ''/no/python'') @ [CHR 0x27] @
                  '' is not found'')
     \<in> set (fst (run_lint example_world ''/p/a.py'' example_view_settings)) \<and>
   Error_message (''Python Flake8 Lint error:'' @ [CHR 0x0A] @ ''sorry, can'' @ [CHR 0x27] @
                  ''t find correct plugin path'')
     \<in> set (fst (run_lint example_world ''/p/a.py'' example_view_settings)) \<and>
   run_ignore_files example_world ''/p/a.py'' example_view_settings =
     ([Error_message (''Python Flake8 Lint error:'' @ [CHR 0x0A] @ [CHR 0x27] @
         ''ignore_files'' @ [CHR 0x27] @ '' option is not a list of file masks'')],
      Inr False)"
proof -
  have a1: "get_default example_view_settings ''python_interpreter'' (JStr ''auto'') =
             JStr ''/no/python''"
    by (simp add: get_default_def example_view_settings_def)
  have a2: "truthy (JStr ''/no/python'')" by simp
  have a3: "JStr ''/no/python'' \<noteq> JStr ''internal''" by simp
  have a4: "JStr ''/no/python'' \<noteq> JStr ''auto''" by simp
  have a5: "path_exists example_world (JStr ''/no/python'') = Inr False"
    by (simp add: example_world_def)
  have b1: "path_exists example_world
             (JStr (path_join example_world [FLAKE_DIR example_world, ''lint.py''])) = Inr False"
    by (simp add: example_world_def)
  have b2: "path_exists example_world
             (JStr (path_join example_world
                [packages_path example_world, ''Python Flake8 Lint'', ''lint.py''])) = Inr False"
    by (simp add: example_world_def)
  have c1: "truthy (get_default example_view_settings ''ignore_files'' JNone)"
    by (simp add: get_default_def example_view_settings_def)
  have c2: "any_filename_match example_world
     (set_iter example_world (ignore_files_paths example_world ''/p/a.py''))
     (get_default example_view_settings ''ignore_files'' JNone) = Inl TypeError"
    by code_simp
  note t = error_dialogs[of example_view_settings "JStr ''/no/python''" example_world
      "''/p/a.py''" TypeError]
  have a5': "JStr ''/no/python'' = JStr ''auto'' \<or>
             (\<exists>b. path_exists example_world (JStr ''/no/python'') = Inr b)"
    using a5 by (intro disjI2 exI)
  have r1: "Error_message (''Python Flake8 Lint error:'' @ [CHR 0x0A] @
                  ''python interpreter '' @
                  [CHR 0x27] @ str_format example_world (JStr ''/no/python'') @ [CHR 0x27] @
                  '' is not found'')
     \<in> set (fst (run_lint example_world ''/p/a.py'' example_view_settings))"
    by (rule mp[OF t[THEN conjunct1]]) (intro conjI a1 a2 a3 a4 a5)
  have r2: "Error_message (''Python Flake8 Lint error:'' @ [CHR 0x0A] @
                  ''sorry, can'' @ [CHR 0x27] @ ''t find correct plugin path'')
     \<in> set (fst (run_lint example_world ''/p/a.py'' example_view_settings))"
    by (rule mp[OF t[THEN conjunct2, THEN conjunct1]]) (intro conjI a1 a2 a3 a5' b1 b2)
  have r3: "run_ignore_files example_world ''/p/a.py'' example_view_settings =
     ([Error_message (''Python Flake8 Lint error:'' @ [CHR 0x0A] @ [CHR 0x27] @
         ''ignore_files'' @ [CHR 0x27] @ '' option is not a list of file masks'')],
      Inr False)"
    by (rule mp[OF t[THEN conjunct2, THEN conjunct2, THEN conjunct1]])
       (intro conjI c1 c2 disjI1 refl)
  show ?thesis
    by (intro conjI a1 a2 a3 a4 a5 b1 b2 c1 c2 r1 r2 r3)
qed

text \<open>
  C6 (lint on load). \<open>_lintOnLoad\<close> arms the 100 ms timer and does nothing else on its
  first call, while the view is loading and while the view has no window; it runs
  \<open>flake8_lint\<close> only on a retry, for a loaded view with a window whose active view it
  is, and does nothing for a loaded view of a window with another active view.
  \<open>on_load\<close> starts it for a view that is not a scratch view when \<open>lint_on_load\<close> is
  set. Along the calls the timer makes, every call but the last has re-armed the timer,
  and the command runs at most in the last call, which is then a retry on a ready,
  active view.
\<close>

theorem lint_on_load_polling:
  "(\<not> retry \<or> is_loading v \<or> view_window v = None \<longrightarrow>
      lintOnLoad v retry = ([Set_timeout (view_id v) 100], None)) \<and>
   (\<forall>n c. Run_command n c \<in> set (fst (lintOnLoad v retry)) \<longrightarrow>
      retry \<and> \<not> is_loading v \<and>
      (\<exists>win. view_window v = Some win \<and> active_view win = Some (view_id v)) \<and>
      n = view_id v \<and> c = ''flake8_lint'') \<and>
   (\<forall>win a. retry \<and> \<not> is_loading v \<and> view_window v = Some win \<and> active_view win = Some a \<longrightarrow>
      lintOnLoad v retry =
        (if a = view_id v then [Run_command (view_id v) ''flake8_lint''] else [], None)) \<and>
   on_load w v =
     (if \<not> is_scratch v \<and> truthy (get_default (settings w) ''lint_on_load'' (JBool False))
      then lintOnLoad v False else ([], None)) \<and>
   (\<forall>k < length (lintOnLoad_calls False vs).
      lintOnLoad_calls False vs ! k = lintOnLoad (vs ! k) (0 < k) \<and>
      (Suc k < length (lintOnLoad_calls False vs) \<longrightarrow>
         fst (lintOnLoad_calls False vs ! k) = [Set_timeout (view_id (vs ! k)) 100]) \<and>
      (\<forall>n c. Run_command n c \<in> set (fst (lintOnLoad_calls False vs ! k)) \<longrightarrow>
         Suc k = length (lintOnLoad_calls False vs) \<and> 0 < k \<and> \<not> is_loading (vs ! k) \<and>
         (\<exists>win. view_window (vs ! k) = Some win \<and> active_view win = Some (view_id (vs ! k))) \<and>
         n = view_id (vs ! k) \<and> c = ''flake8_lint''))"
proof -
  have P: "lintOnLoad_calls False vs ! k = lintOnLoad (vs ! k) (0 < k) \<and>
      (Suc k < length (lintOnLoad_calls False vs) \<longrightarrow>
         fst (lintOnLoad_calls False vs ! k) = [Set_timeout (view_id (vs ! k)) 100]) \<and>
      (\<forall>n c. Run_command n c \<in> set (fst (lintOnLoad_calls False vs ! k)) \<longrightarrow>
         Suc k = length (lintOnLoad_calls False vs) \<and> 0 < k \<and> \<not> is_loading (vs ! k) \<and>
         (\<exists>win. view_window (vs ! k) = Some win \<and> active_view win = Some (view_id (vs ! k))) \<and>
         n = view_id (vs ! k) \<and> c = ''flake8_lint'')"
    if k: "k < length (lintOnLoad_calls False vs)" for k
  proof -
    note nth = lintOnLoad_calls_nth[OF k]
    have "(False \<or> 0 < k) = (0 < k)" by simp
    with nth have e: "lintOnLoad_calls False vs ! k = lintOnLoad (vs ! k) (0 < k)"
      by (elim conjE) (erule subst)
    from nth have s: "Suc k < length (lintOnLoad_calls False vs) \<longrightarrow>
         fst (lintOnLoad_calls False vs ! k) = [Set_timeout (view_id (vs ! k)) 100]"
      by (elim conjE)
    have r: "Suc k = length (lintOnLoad_calls False vs) \<and> 0 < k \<and> \<not> is_loading (vs ! k) \<and>
         (\<exists>win. view_window (vs ! k) = Some win \<and> active_view win = Some (view_id (vs ! k))) \<and>
         n = view_id (vs ! k) \<and> c = ''flake8_lint''"
      if rc: "Run_command n c \<in> set (fst (lintOnLoad_calls False vs ! k))" for n c
    proof -
      from rc e have "Run_command n c \<in> set (fst (lintOnLoad (vs ! k) (0 < k)))" by simp
      from lintOnLoad_runs[OF this] have
        f: "0 < k \<and> \<not> is_loading (vs ! k) \<and>
         (\<exists>win. view_window (vs ! k) = Some win \<and> active_view win = Some (view_id (vs ! k))) \<and>
         n = view_id (vs ! k) \<and> c = ''flake8_lint''" .
      have "\<not> Suc k < length (lintOnLoad_calls False vs)"
      proof
        assume "Suc k < length (lintOnLoad_calls False vs)"
        with s rc show False by simp
      qed
      with k have "Suc k = length (lintOnLoad_calls False vs)" by simp
      with f show ?thesis by simp
    qed
    from e s r show ?thesis by blast
  qed
  have O: "on_load w v =
     (if \<not> is_scratch v \<and> truthy (get_default (settings w) ''lint_on_load'' (JBool False))
      then lintOnLoad v False else ([], None))"
    by (simp add: on_load_def)
  show ?thesis
  proof (intro conjI allI impI)
    show "lintOnLoad v retry = ([Set_timeout (view_id v) 100], None)"
      if "\<not> retry \<or> is_loading v \<or> view_window v = None"
      using lintOnLoad_rearm[OF that] .
    show "on_load w v =
     (if \<not> is_scratch v \<and> truthy (get_default (settings w) ''lint_on_load'' (JBool False))
      then lintOnLoad v False else ([], None))" by (rule O)
    show "lintOnLoad v retry =
        (if a = view_id v then [Run_command (view_id v) ''flake8_lint''] else [], None)"
      if "retry \<and> \<not> is_loading v \<and> view_window v = Some win \<and> active_view win = Some a"
      for win a
      using that lintOnLoad_ready by blast
  qed (use lintOnLoad_runs P in blast)+
qed

theorem lint_on_load_polling_witness:
  "is_loading loading_view \<and>
   lintOnLoad loading_view True = ([Set_timeout (view_id loading_view) 100], None) \<and>
   \<not> is_loading inactive_view \<and>
   view_window inactive_view = Some \<lparr>active_view = Some 2\<rparr> \<and>
   lintOnLoad inactive_view True = ([], None) \<and>
   (2 :: nat) < length (lintOnLoad_calls False [example_view, loading_view, example_view]) \<and>
   fst (lintOnLoad_calls False [example_view, loading_view, example_view] ! 1) =
     [Set_timeout (view_id ([example_view, loading_view, example_view] ! 1)) 100] \<and>
   lintOnLoad_calls False [example_view, loading_view, example_view] ! 2 =
     ([Run_command 1 ''flake8_lint''], None)"
proof -
  have l: "is_loading loading_view" by (simp add: loading_view_def)
  have i1: "\<not> is_loading inactive_view"
    by (simp add: inactive_view_def example_view_def buffer_view_def)
  have i2: "view_window inactive_view = Some \<lparr>active_view = Some 2\<rparr>"
    by (simp add: inactive_view_def)
  have i3: "active_view \<lparr>active_view = Some 2\<rparr> = Some (2 :: nat)" by simp
  have i4: "view_id inactive_view = 1"
    by (simp add: inactive_view_def example_view_def buffer_view_def)
  have len: "(2 :: nat) < length (lintOnLoad_calls False [example_view, loading_view, example_view])"
    by (simp add: lintOnLoad_def loading_view_def Let_def)
  have len1: "Suc 1 < length (lintOnLoad_calls False [example_view, loading_view, example_view])"
    using len by simp
  have ev: "lintOnLoad example_view True = ([Run_command 1 ''flake8_lint''], None)"
    by (simp add: lintOnLoad_def example_view_def buffer_view_def)
  note t1 = lint_on_load_polling[of True loading_view]
  note t2 = lint_on_load_polling[of True inactive_view]
  note t3 = lint_on_load_polling[of _ _ _ "[example_view, loading_view, example_view]"]
  from t1 l have r1: "lintOnLoad loading_view True = ([Set_timeout (view_id loading_view) 100], None)"
    by blast
  from t2 i1 i2 i3 have
    "lintOnLoad inactive_view True =
       (if 2 = view_id inactive_view then [Run_command (view_id inactive_view) ''flake8_lint'']
        else [], None)"
    by blast
  with i4 have r2: "lintOnLoad inactive_view True = ([], None)" by simp
  from t3 len1 have r3: "fst (lintOnLoad_calls False [example_view, loading_view, example_view] ! 1) =
     [Set_timeout (view_id ([example_view, loading_view, example_view] ! 1)) 100]"
    by (metis One_nat_def Suc_lessD)
  from t3 len have "lintOnLoad_calls False [example_view, loading_view, example_view] ! 2 =
     lintOnLoad ([example_view, loading_view, example_view] ! 2) (0 < (2 :: nat))"
    by blast
  with ev have r4: "lintOnLoad_calls False [example_view, loading_view, example_view] ! 2 =
     ([Run_command 1 ''flake8_lint''], None)" by simp
  from l r1 i1 i2 r2 len r3 r4 show ?thesis by (intro conjI)
qed

text \<open>
  C4 (lifecycle of the per-view dictionary), second half as stated: the entry of a view
  is removed when the view is closed. \<open>Flake8LintBackground\<close> has no handler for the
  close event, and the entry a lint run has stored is still there after it.
\<close>

theorem close_keeps_errors_counterexample:
  "ERRORS_IN_VIEWS
     (fst (handle_event example_world On_close example_view
             (fst (run example_world example_view example_state))))
     (view_id example_view) \<noteq> None"
proof -
  have "has_errors
     (fst (handle_event example_world On_close example_view
             (fst (run example_world example_view example_state))))
     (view_id example_view)"
    by code_simp
  then show ?thesis by (simp add: has_errors_def split: option.splits)
qed

text \<open>
  C4, amended. A \<open>show_errors\<close> whose loop completes stores the dictionary built by this
  run under the view's id, whatever the entry held before (replaced, not merged), and
  leaves the entries of other views alone. Every \<open>run\<close> that gets to \<open>show_errors\<close>
  with a loop that completes does so, with or without the quick panel, the run that
  \<open>on_post_save\<close> starts included, and a \<open>run\<close> changes the dictionary in no other
  way. On the close event no code of the plugin runs and the entry stays.
\<close>

theorem error_dict_lifecycle:
  "(\<forall>st. show_errors_collect stg v vs
            (case errors_list ps (view_id v) of None \<Rightarrow> [] | Some es \<Rightarrow> es) = Inr st \<longrightarrow>
      ERRORS_IN_VIEWS (fst (show_errors stg v vs ps)) =
        (ERRORS_IN_VIEWS ps)(view_id v \<mapsto> view_errors st) \<and>
      (\<forall>d. ERRORS_IN_VIEWS (fst (show_errors stg v vs (ps\<lparr>ERRORS_IN_VIEWS := d\<rparr>))) (view_id v) =
             Some (view_errors st))) \<and>
   (\<forall>n. n \<noteq> view_id v \<longrightarrow>
      ERRORS_IN_VIEWS (fst (show_errors stg v vs ps)) n = ERRORS_IN_VIEWS ps n) \<and>
   (\<forall>fn vs' errs st.
      file_name v = Some fn \<and> fn \<noteq> [] \<and> match_selector v 0 ''source.python'' \<and>
      \<not> skip_file w (abspath w fn) \<and> get_view_settings w v = Inr vs' \<and>
      snd (run_ignore_files w (abspath w fn) vs') = Inr False \<and>
      snd (run_lint w (abspath w fn) vs') = Inr errs \<and> errs \<noteq> [] \<and>
      show_errors_collect (settings w) v vs' errs = Inr st \<longrightarrow>
      ERRORS_IN_VIEWS (fst (run w v ps)) = (ERRORS_IN_VIEWS ps)(view_id v \<mapsto> view_errors st)) \<and>
   (ERRORS_IN_VIEWS (fst (run w v ps)) = ERRORS_IN_VIEWS ps \<or>
    (\<exists>vs' errs st.
       errs \<noteq> [] \<and> show_errors_collect (settings w) v vs' errs = Inr st \<and>
       ERRORS_IN_VIEWS (fst (run w v ps)) = (ERRORS_IN_VIEWS ps)(view_id v \<mapsto> view_errors st))) \<and>
   (\<not> is_scratch v \<and> truthy (get_default (settings w) ''lint_on_save'' (JBool True)) \<longrightarrow>
      fst (handle_event w On_post_save v ps) = fst (run w v ps)) \<and>
   handle_event w On_close v ps = (ps, [], None)"
proof -
  have A: "ERRORS_IN_VIEWS (fst (show_errors stg v vs ps)) =
        (ERRORS_IN_VIEWS ps)(view_id v \<mapsto> view_errors st) \<and>
      (\<forall>d. ERRORS_IN_VIEWS (fst (show_errors stg v vs (ps\<lparr>ERRORS_IN_VIEWS := d\<rparr>))) (view_id v) =
             Some (view_errors st))"
    if c: "show_errors_collect stg v vs
            (case errors_list ps (view_id v) of None \<Rightarrow> [] | Some es \<Rightarrow> es) = Inr st" for st
  proof -
    have "ERRORS_IN_VIEWS (fst (show_errors stg v vs (ps\<lparr>ERRORS_IN_VIEWS := d\<rparr>))) (view_id v) =
             Some (view_errors st)" for d
    proof -
      from c have "show_errors_collect stg v vs
            (case errors_list (ps\<lparr>ERRORS_IN_VIEWS := d\<rparr>) (view_id v) of
               None \<Rightarrow> [] | Some es \<Rightarrow> es) = Inr st"
        by simp
      from show_errors_state[OF this] show ?thesis by simp
    qed
    with show_errors_state[OF c] show ?thesis by blast
  qed
  have B: "ERRORS_IN_VIEWS (fst (run w v ps)) = (ERRORS_IN_VIEWS ps)(view_id v \<mapsto> view_errors st)"
    if h: "file_name v = Some fn \<and> fn \<noteq> [] \<and> match_selector v 0 ''source.python'' \<and>
      \<not> skip_file w (abspath w fn) \<and> get_view_settings w v = Inr vs' \<and>
      snd (run_ignore_files w (abspath w fn) vs') = Inr False \<and>
      snd (run_lint w (abspath w fn) vs') = Inr errs \<and> errs \<noteq> [] \<and>
      show_errors_collect (settings w) v vs' errs = Inr st"
    for fn vs' errs st
  proof -
    from h have g: "file_name v = Some fn" "fn \<noteq> []" "match_selector v 0 ''source.python''"
      "\<not> skip_file w (abspath w fn)" "get_view_settings w v = Inr vs'"
      "snd (run_ignore_files w (abspath w fn) vs') = Inr False"
      "snd (run_lint w (abspath w fn) vs') = Inr errs" "errs \<noteq> []"
      and c: "show_errors_collect (settings w) v vs' errs = Inr st"
      by simp_all
    let ?ps1 = "ps\<lparr>errors_list := (errors_list ps)(view_id v \<mapsto> errs)\<rparr>"
    from c have "show_errors_collect (settings w) v vs'
            (case errors_list ?ps1 (view_id v) of None \<Rightarrow> [] | Some es \<Rightarrow> es) = Inr st"
      by simp
    from show_errors_state[OF this] run_shows_errors[OF g, of ps] show ?thesis by simp
  qed
  have C: "ERRORS_IN_VIEWS (fst (run w v ps)) = ERRORS_IN_VIEWS ps \<or>
    (\<exists>vs' errs st.
       errs \<noteq> [] \<and> show_errors_collect (settings w) v vs' errs = Inr st \<and>
       ERRORS_IN_VIEWS (fst (run w v ps)) = (ERRORS_IN_VIEWS ps)(view_id v \<mapsto> view_errors st))"
  proof (cases "ERRORS_IN_VIEWS (fst (run w v ps)) = ERRORS_IN_VIEWS ps")
    case True
    then show ?thesis ..
  next
    case False
    with run_state_cases[of w v ps] obtain vs' errs where
      ne: "errs \<noteq> []" and
      s: "fst (run w v ps) =
            fst (show_errors (settings w) v vs'
                   (ps\<lparr>errors_list := (errors_list ps)(view_id v \<mapsto> errs)\<rparr>))"
      by blast
    let ?ps1 = "ps\<lparr>errors_list := (errors_list ps)(view_id v \<mapsto> errs)\<rparr>"
    show ?thesis
    proof (cases "show_errors_collect (settings w) v vs' errs")
      case (Inl err)
      then have "show_errors_collect (settings w) v vs'
            (case errors_list ?ps1 (view_id v) of None \<Rightarrow> [] | Some es \<Rightarrow> es) = Inl err"
        by simp
      from show_errors_state_raise[OF this] s False show ?thesis by simp
    next
      case (Inr st)
      then have "show_errors_collect (settings w) v vs'
            (case errors_list ?ps1 (view_id v) of None \<Rightarrow> [] | Some es \<Rightarrow> es) = Inr st"
        by simp
      from show_errors_state[OF this] s have
        "ERRORS_IN_VIEWS (fst (run w v ps)) = (ERRORS_IN_VIEWS ps)(view_id v \<mapsto> view_errors st)"
        by simp
      with ne Inr show ?thesis by blast
    qed
  qed
  have E: "handle_event w On_close v ps = (ps, [], None)"
    by (simp add: handle_event_def)
  show ?thesis
  proof (intro conjI allI impI)
    show "handle_event w On_close v ps = (ps, [], None)" by (rule E)
    show "ERRORS_IN_VIEWS (fst (run w v ps)) = ERRORS_IN_VIEWS ps \<or>
      (\<exists>vs' errs st.
       errs \<noteq> [] \<and> show_errors_collect (settings w) v vs' errs = Inr st \<and>
       ERRORS_IN_VIEWS (fst (run w v ps)) = (ERRORS_IN_VIEWS ps)(view_id v \<mapsto> view_errors st))"
      by (rule C)
    show "fst (handle_event w On_post_save v ps) = fst (run w v ps)"
      if "\<not> is_scratch v \<and> truthy (get_default (settings w) ''lint_on_save'' (JBool True))"
      using that on_post_save_runs by blast
    show "ERRORS_IN_VIEWS (fst (show_errors stg v vs ps)) n = ERRORS_IN_VIEWS ps n"
      if "n \<noteq> view_id v" for n
      by (rule show_errors_other_views[OF that])
    show "ERRORS_IN_VIEWS (fst (run w v ps)) = (ERRORS_IN_VIEWS ps)(view_id v \<mapsto> view_errors st)"
      if "file_name v = Some fn \<and> fn \<noteq> [] \<and> match_selector v 0 ''source.python'' \<and>
      \<not> skip_file w (abspath w fn) \<and> get_view_settings w v = Inr vs' \<and>
      snd (run_ignore_files w (abspath w fn) vs') = Inr False \<and>
      snd (run_lint w (abspath w fn) vs') = Inr errs \<and> errs \<noteq> [] \<and>
      show_errors_collect (settings w) v vs' errs = Inr st"
      for fn vs' errs st
      by (rule B[OF that])
  qed (use A in blast)+
qed

theorem error_dict_lifecycle_witness:
  "file_name example_view = Some ''/p/a.py'' \<and> ''/p/a.py'' \<noteq> [] \<and>
   match_selector example_view 0 ''source.python'' \<and>
   \<not> skip_file quiet_world (abspath quiet_world ''/p/a.py'') \<and>
   get_view_settings quiet_world example_view =
     Inr (projr (get_view_settings quiet_world example_view)) \<and>
   snd (run_ignore_files quiet_world (abspath quiet_world ''/p/a.py'')
          (projr (get_view_settings quiet_world example_view))) = Inr False \<and>
   snd (run_lint quiet_world (abspath quiet_world ''/p/a.py'')
          (projr (get_view_settings quiet_world example_view))) = Inr example_errors \<and>
   example_errors \<noteq> [] \<and>
   \<not> list_ex (\<lambda>a. case a of Show_quick_panel n es \<Rightarrow> True | _ \<Rightarrow> False)
         (fst (snd (run quiet_world example_view stale_state))) \<and>
   errors_on stale_state 1 5 = [''E303 too many blank lines''] \<and>
   errors_on (fst (run quiet_world example_view stale_state)) 1 5 = [] \<and>
   errors_on (fst (run quiet_world example_view stale_state)) 1 2 =
     [''W291 trailing whitespace''] \<and>
   (\<exists>st. show_errors_collect (settings quiet_world) example_view
            (projr (get_view_settings quiet_world example_view)) example_errors = Inr st \<and>
         ERRORS_IN_VIEWS (fst (run quiet_world example_view stale_state)) =
           (ERRORS_IN_VIEWS stale_state)(view_id example_view \<mapsto> view_errors st)) \<and>
   handle_event quiet_world On_close example_view (fst (run quiet_world example_view stale_state)) =
     (fst (run quiet_world example_view stale_state), [], None) \<and>
   fst (handle_event quiet_world On_post_save example_view stale_state) =
     fst (run quiet_world example_view stale_state)"
proof -
  let ?vs = "projr (get_view_settings quiet_world example_view)"
  let ?f = "abspath quiet_world ''/p/a.py''"
  have h1: "file_name example_view = Some ''/p/a.py''"
    by (simp add: example_view_def buffer_view_def)
  have h2: "''/p/a.py'' \<noteq> []" by simp
  have h3: "match_selector example_view 0 ''source.python''"
    by (simp add: example_view_def buffer_view_def)
  have h4: "\<not> skip_file quiet_world ?f"
    by (simp add: quiet_world_def example_world_def)
  have "\<not> isl (get_view_settings quiet_world example_view)" by code_simp
  then have h5: "get_view_settings quiet_world example_view = Inr ?vs"
    by (cases "get_view_settings quiet_world example_view") simp_all
  have h6: "snd (run_ignore_files quiet_world ?f ?vs) = Inr False" by code_simp
  have h7: "snd (run_lint quiet_world ?f ?vs) = Inr example_errors" by code_simp
  have h8: "example_errors \<noteq> []" by (simp add: example_errors_def)
  have "\<not> isl (show_errors_collect (settings quiet_world) example_view ?vs example_errors)"
    by code_simp
  then obtain st where
    h9: "show_errors_collect (settings quiet_world) example_view ?vs example_errors = Inr st"
    by (cases "show_errors_collect (settings quiet_world) example_view ?vs example_errors") auto
  have a: "\<not> list_ex (\<lambda>a. case a of Show_quick_panel n es \<Rightarrow> True | _ \<Rightarrow> False)
         (fst (snd (run quiet_world example_view stale_state)))"
    by code_simp
  have e1: "errors_on stale_state 1 5 = [''E303 too many blank lines'']" by code_simp
  have e2: "errors_on (fst (run quiet_world example_view stale_state)) 1 5 = []" by code_simp
  have e3: "errors_on (fst (run quiet_world example_view stale_state)) 1 2 =
     [''W291 trailing whitespace'']" by code_simp
  note t = error_dict_lifecycle[of _ example_view _ stale_state quiet_world]
  have hyp: "file_name example_view = Some ''/p/a.py'' \<and> ''/p/a.py'' \<noteq> [] \<and>
      match_selector example_view 0 ''source.python'' \<and>
      \<not> skip_file quiet_world ?f \<and> get_view_settings quiet_world example_view = Inr ?vs \<and>
      snd (run_ignore_files quiet_world ?f ?vs) = Inr False \<and>
      snd (run_lint quiet_world ?f ?vs) = Inr example_errors \<and> example_errors \<noteq> [] \<and>
      show_errors_collect (settings quiet_world) example_view ?vs example_errors = Inr st"
    by (intro conjI h1 h2 h3 h4 h5 h6 h7 h8 h9)
  have r: "ERRORS_IN_VIEWS (fst (run quiet_world example_view stale_state)) =
           (ERRORS_IN_VIEWS stale_state)(view_id example_view \<mapsto> view_errors st)"
    by (rule t[THEN conjunct2, THEN conjunct2, THEN conjunct1, rule_format, OF hyp])
  with h9 have ex: "\<exists>st. show_errors_collect (settings quiet_world) example_view ?vs
            example_errors = Inr st \<and>
         ERRORS_IN_VIEWS (fst (run quiet_world example_view stale_state)) =
           (ERRORS_IN_VIEWS stale_state)(view_id example_view \<mapsto> view_errors st)"
    by (intro exI conjI)
  note t' = error_dict_lifecycle[of _ example_view _
      "fst (run quiet_world example_view stale_state)" quiet_world]
  have c: "handle_event quiet_world On_close example_view
             (fst (run quiet_world example_view stale_state)) =
           (fst (run quiet_world example_view stale_state), [], None)"
    by (rule t'[THEN conjunct2, THEN conjunct2, THEN conjunct2, THEN conjunct2, THEN conjunct2])
  have sv: "\<not> is_scratch example_view \<and>
            truthy (get_default (settings quiet_world) ''lint_on_save'' (JBool True))"
    by (simp add: example_view_def buffer_view_def quiet_world_def get_default_def)
  have p: "fst (handle_event quiet_world On_post_save example_view stale_state) =
     fst (run quiet_world example_view stale_state)"
    by (rule t[THEN conjunct2, THEN conjunct2, THEN conjunct2, THEN conjunct2, THEN conjunct1,
               rule_format, OF sv])
  show ?thesis
    by (intro conjI h1 h2 h3 h4 h5 h6 h7 h8 a e1 e2 e3 ex c p)
qed

end
